theory Spec2Isabelle
  imports Main
begin

section \<open>Errors\<close>

text \<open>
  Every \<open>throw\<close> of the source is a value: \<open>createError(status, message)\<close> of
  \<open>http-errors\<close>, a unique-index violation raised by the persistence layer, and a
  plain \<open>new Error(message)\<close>.
\<close>

datatype error =
    HttpError nat string
  | UniqueConstraintViolation string
  | PlainError string

section \<open>Bearer tokens in the Authorization header (\<open>utils/auth.utils.ts\<close>)\<close>

definition startsWith :: "string \<Rightarrow> string \<Rightarrow> bool" where
  "startsWith s searchString = (take (length searchString) s = searchString)"

definition substring :: "string \<Rightarrow> nat \<Rightarrow> string" where
  "substring s start = drop start s"

text \<open>
  \<open>authHeader: string | undefined\<close> is a \<open>string option\<close>; \<open>!authHeader\<close> holds for
  \<open>undefined\<close> and for the empty string.
\<close>

definition extractTokenFromHeader :: "string option \<Rightarrow> string option" where
  "extractTokenFromHeader authHeader =
     (case authHeader of
        None \<Rightarrow> None
      | Some h \<Rightarrow>
          if h = [] \<or> \<not> startsWith h ''Bearer '' then None
          else Some (substring h 7))"

text \<open>
  The \<open>authenticate\<close> middleware (\<open>middlewares/authenticate.ts\<close>). The verifier is a
  parameter, so that a result that does not depend on it is a result reached before any
  verification. \<open>Inl e\<close> is \<open>next(error)\<close>, \<open>Inr decoded\<close> is \<open>req.user = decoded; next()\<close>.
  \<open>!token\<close> holds for \<open>null\<close> and for the empty string.
\<close>

definition authenticate :: "(string \<Rightarrow> error + 'a) \<Rightarrow> string option \<Rightarrow> error + 'a" where
  "authenticate verifyAccessToken authorization =
     (case extractTokenFromHeader authorization of
        None \<Rightarrow> Inl (HttpError 401 ''Access token is required'')
      | Some token \<Rightarrow>
          if token = [] then Inl (HttpError 401 ''Access token is required'')
          else verifyAccessToken token)"

section \<open>One-time codes: generation (\<open>utils/otp.utils.ts\<close>, both revisions)\<close>

definition digitChar :: "nat \<Rightarrow> char" where
  "digitChar d = ''0123456789'' ! d"

text \<open>\<open>Number.prototype.toString()\<close> on a non-negative integer: its decimal digits.\<close>

function toString :: "nat \<Rightarrow> string" where
  "toString n =
     (if n < 10 then [digitChar n]
      else toString (n div 10) @ [digitChar (n mod 10)])"
  by pat_completeness auto
termination
  by (relation "measure (\<lambda>n. n)") auto

declare toString.simps [simp del]

definition padStart :: "string \<Rightarrow> nat \<Rightarrow> char \<Rightarrow> string" where
  "padStart s targetLength c = replicate (targetLength - length s) c @ s"

text \<open>
  \<open>crypto.randomInt(min, max)\<close> returns an integer \<open>n\<close> with \<open>min \<le> n < max\<close>, chosen
  uniformly: the upper bound is exclusive. The randomness is the argument \<open>entropy\<close>,
  reduced to one of the \<open>max - min\<close> possible draws.
\<close>

definition randomInt :: "nat \<Rightarrow> nat \<Rightarrow> nat \<Rightarrow> nat" where
  "randomInt entropy min' max' = min' + entropy mod (max' - min')"

definition otpConfig_length :: nat where
  "otpConfig_length = 6"

definition generateOTP :: "nat \<Rightarrow> string" where
  "generateOTP entropy =
     padStart
       (toString (randomInt entropy (10 ^ (otpConfig_length - 1)) (10 ^ otpConfig_length - 1)))
       otpConfig_length (CHR ''0'')"

section \<open>Data model (\<open>utils/type.d.ts\<close>, the \<open>User\<close> and \<open>EmailVerification\<close> tables)\<close>

text \<open>
  A \<open>Date\<close> is its \<open>getTime()\<close>: milliseconds since the epoch. A nullable column and an
  optional field are an \<open>option\<close>. Records that share field names are told apart by
  qualified names (\<open>AuthPayload.email\<close>); the unqualified ones are those of \<open>User\<close>.
  The identifier field \<open>id\<close> is written \<open>id'\<close>.
\<close>

datatype UserRole = ADMIN | SELLER | CUSTOMER

datatype UserStatus = ACTIVE | SUSPENDED | DELETED

record AuthPayload =
  userId :: string
  email :: string
  role :: UserRole

record TokenPayload = AuthPayload +
  iat :: "nat option"
  exp :: "nat option"

record UserResponse =
  id' :: string
  firstName :: string
  lastName :: string
  email :: string
  phone :: string
  avatarUrl :: "string option"
  role :: UserRole
  status :: UserStatus
  emailVerified :: bool
  phoneVerified :: bool
  createdAt :: nat

record EmailVerification =
  id' :: string
  email :: string
  code :: string
  expiresAt :: nat

record GoogleUser =
  id' :: string
  email :: string
  name :: string
  picture :: "string option"
  given_name :: "string option"
  family_name :: "string option"

section \<open>External collaborators\<close>

text \<open>
  \<open>process.env\<close>, restricted to the variables the modelled code reads.
\<close>

record Env =
  env_JWT_SECRET :: "string option"
  env_JWT_REFRESH_SECRET :: "string option"
  env_FRONTEND_URL :: "string option"

text \<open>\<open>x || fallback\<close> on an optional string: \<open>undefined\<close> and the empty string both give the fallback.\<close>

definition orDefault :: "string option \<Rightarrow> string \<Rightarrow> string" where
  "orDefault v fallback = (case v of None \<Rightarrow> fallback | Some s \<Rightarrow> if s = [] then fallback else s)"

text \<open>
  The hash functions of \<open>bcryptjs\<close> and of Node's \<open>crypto\<close> are parameters of the
  model: \<open>bcrypt_hash password rounds salt\<close> is \<open>bcrypt.hash\<close> with the salt it draws made
  explicit, \<open>bcrypt_compare\<close> is \<open>bcrypt.compare\<close>, \<open>sha256_hex\<close> is
  \<open>createHash('sha256').update(s).digest('hex')\<close>.
\<close>

record Crypto =
  bcrypt_hash :: "string \<Rightarrow> nat \<Rightarrow> string \<Rightarrow> string"
  bcrypt_compare :: "string \<Rightarrow> string \<Rightarrow> bool"
  sha256_hex :: "string \<Rightarrow> string"

text \<open>
  \<open>config/auth.config\<close> is imported by \<open>password.reset.ts\<close>; its constants are a
  parameter.
\<close>

record PasswordResetConfig =
  tokenLength :: nat
  expiryMinutes :: nat

text \<open>
  The time zone of the process, as the two conversions of the language: \<open>LocalTime t\<close> is
  the local wall-clock value of the instant \<open>t\<close>, and \<open>UTC t\<close> the instant of the local
  wall-clock value \<open>t\<close>. Across a daylight-saving transition they are not inverse
  translations by one offset.
\<close>

record TimeZone =
  LocalTime :: "nat \<Rightarrow> nat"
  UTC :: "nat \<Rightarrow> nat"

section \<open>Signed tokens (\<open>jsonwebtoken\<close>, \<open>utils/auth.utils.ts\<close>)\<close>

text \<open>
  A token of the \<open>jsonwebtoken\<close> library is modelled symbolically, in the manner of the
  perfect-cryptography models of protocol verification: \<open>Jwt k p\<close> is the compact
  serialisation of the payload \<open>p\<close> with an HMAC signature under the secret \<open>k\<close>, and
  \<open>Malformed s\<close> is any other string. A signature checks under a secret exactly when
  it was made with it. \<open>jwt.sign\<close> with \<open>expiresIn\<close> adds \<open>iat\<close> and \<open>exp\<close>, in
  seconds; \<open>jwt.verify\<close> rejects a token whose \<open>exp\<close> is not after the clock.
\<close>

datatype jwt = Jwt string TokenPayload | Malformed string

datatype jwt_error = JsonWebTokenError string | TokenExpiredError

definition jwt_sign :: "AuthPayload \<Rightarrow> string \<Rightarrow> nat \<Rightarrow> nat \<Rightarrow> jwt" where
  "jwt_sign payload secretOrPrivateKey expiresIn now =
     (let timestamp = now div 1000
      in Jwt secretOrPrivateKey
           (AuthPayload.extend payload
              \<lparr>iat = Some timestamp, exp = Some (timestamp + expiresIn)\<rparr>))"

fun jwt_verify :: "jwt \<Rightarrow> string \<Rightarrow> nat \<Rightarrow> jwt_error + TokenPayload" where
  "jwt_verify (Malformed s) secretOrPublicKey now = Inl (JsonWebTokenError ''jwt malformed'')"
| "jwt_verify (Jwt k payload) secretOrPublicKey now =
     (if k \<noteq> secretOrPublicKey then Inl (JsonWebTokenError ''invalid signature'')
      else (case exp payload of
              None \<Rightarrow> Inr payload
            | Some e \<Rightarrow> if now div 1000 \<ge> e then Inl TokenExpiredError else Inr payload))"

definition JWT_SECRET :: "Env \<Rightarrow> string" where
  "JWT_SECRET env = orDefault (env_JWT_SECRET env) ''your-super-secret-jwt-key-change-in-production''"

definition JWT_REFRESH_SECRET :: "Env \<Rightarrow> string" where
  "JWT_REFRESH_SECRET env =
     orDefault (env_JWT_REFRESH_SECRET env) ''your-super-secret-refresh-key-change-in-production''"

definition ACCESS_TOKEN_EXPIRY :: nat where
  "ACCESS_TOKEN_EXPIRY = 24 * 60 * 60"

definition REFRESH_TOKEN_EXPIRY :: nat where
  "REFRESH_TOKEN_EXPIRY = 7 * 24 * 60 * 60"

definition hashPassword :: "Crypto \<Rightarrow> string \<Rightarrow> string \<Rightarrow> string" where
  "hashPassword crypto salt password = (let saltRounds = 12 in bcrypt_hash crypto password saltRounds salt)"

definition comparePassword :: "Crypto \<Rightarrow> string \<Rightarrow> string \<Rightarrow> bool" where
  "comparePassword crypto password hash = bcrypt_compare crypto password hash"

definition generateAccessToken :: "Env \<Rightarrow> nat \<Rightarrow> AuthPayload \<Rightarrow> jwt" where
  "generateAccessToken env now payload = jwt_sign payload (JWT_SECRET env) ACCESS_TOKEN_EXPIRY now"

definition generateRefreshToken :: "Env \<Rightarrow> nat \<Rightarrow> AuthPayload \<Rightarrow> jwt" where
  "generateRefreshToken env now payload =
     jwt_sign payload (JWT_REFRESH_SECRET env) REFRESH_TOKEN_EXPIRY now"

definition verifyAccessToken :: "Env \<Rightarrow> nat \<Rightarrow> jwt \<Rightarrow> error + TokenPayload" where
  "verifyAccessToken env now token =
     (case jwt_verify token (JWT_SECRET env) now of
        Inr decoded \<Rightarrow> Inr decoded
      | Inl err \<Rightarrow> Inl (HttpError 401 ''Invalid or expired access token''))"

definition verifyRefreshToken :: "Env \<Rightarrow> nat \<Rightarrow> jwt \<Rightarrow> error + TokenPayload" where
  "verifyRefreshToken env now token =
     (case jwt_verify token (JWT_REFRESH_SECRET env) now of
        Inr decoded \<Rightarrow> Inr decoded
      | Inl err \<Rightarrow> Inl (HttpError 401 ''Invalid or expired refresh token''))"

record TokenPair =
  accessToken :: jwt
  refreshToken :: jwt

definition generateTokenPair :: "Env \<Rightarrow> nat \<Rightarrow> AuthPayload \<Rightarrow> TokenPair" where
  "generateTokenPair env now payload =
     (let accessToken = generateAccessToken env now payload;
          refreshToken = generateRefreshToken env now payload
      in \<lparr>accessToken = accessToken, refreshToken = refreshToken\<rparr>)"

section \<open>Responses (\<open>utils/ApiResponse.ts\<close>)\<close>

datatype ResponseStatus = SUCCESS | ERROR | FAIL

record 'a ApiResponse =
  status :: ResponseStatus
  message :: string
  data :: "'a option"
  meta_timestamp :: nat

definition ApiResponseBuilder_success :: "nat \<Rightarrow> string \<Rightarrow> 'a option \<Rightarrow> 'a ApiResponse" where
  "ApiResponseBuilder_success now message' data' =
     \<lparr>ApiResponse.status = SUCCESS, message = message', data = data', meta_timestamp = now\<rparr>"

definition ApiResponseBuilder_created :: "nat \<Rightarrow> string \<Rightarrow> 'a \<Rightarrow> 'a ApiResponse" where
  "ApiResponseBuilder_created now message' data' =
     \<lparr>ApiResponse.status = SUCCESS, message = message', data = Some data', meta_timestamp = now\<rparr>"

text \<open>
  What a handler does with \<open>res\<close>: \<open>res.status(c).json(body)\<close> (\<open>res.json\<close> is status
  200), or \<open>res.redirect\<close> to the front end's callback address with both tokens as
  query parameters. \<open>next(error)\<close> is \<open>Inl error\<close>.
\<close>

datatype 'a response = Json nat "'a ApiResponse" | Redirect string jwt jwt

record AuthResponse =
  user :: UserResponse
  accessToken :: jwt
  refreshToken :: jwt

section \<open>The \<open>User\<close> table\<close>

text \<open>
  The \<open>User\<close> table of the initial migration with the two verification columns of the
  later one. The columns \<open>googleId\<close>, \<open>bio\<close> and \<open>updatedAt\<close> are left out: no handler
  modelled here reads or writes them.
\<close>

record User =
  id' :: string
  firstName :: string
  lastName :: string
  email :: string
  phone :: string
  passwordHash :: "string option"
  avatarUrl :: "string option"
  role :: UserRole
  status :: UserStatus
  emailVerified :: bool
  phoneVerified :: bool
  lastLoginAt :: "nat option"
  resetPasswordToken :: "string option"
  resetPasswordExpires :: "nat option"
  createdAt :: nat
  emailVerificationCode :: "string option"
  emailVerificationExpires :: "nat option"

section \<open>Persistence (the Prisma client over the two tables)\<close>

text \<open>
  A table is the list of its rows. \<open>findFirst\<close> and \<open>findUnique\<close> return the first row
  that matches, \<open>update\<close> rewrites the row with the given primary key, \<open>deleteMany\<close>
  removes every matching row. \<open>create\<close> appends the row unless a unique index of the
  migration (\<open>User_pkey\<close>, \<open>User_email_key\<close>, \<open>User_phone_key\<close>,
  \<open>EmailVerification_pkey\<close>) rejects it, and then throws.
\<close>

definition user_findFirst :: "(User \<Rightarrow> bool) \<Rightarrow> User list \<Rightarrow> User option" where
  "user_findFirst wh users = find wh users"

definition user_findUnique_email :: "string \<Rightarrow> User list \<Rightarrow> User option" where
  "user_findUnique_email e users = find (\<lambda>u. email u = e) users"

definition user_update :: "string \<Rightarrow> (User \<Rightarrow> User) \<Rightarrow> User list \<Rightarrow> User list" where
  "user_update i change users = map (\<lambda>u. if id' u = i then change u else u) users"

definition user_updateMany :: "(User \<Rightarrow> bool) \<Rightarrow> (User \<Rightarrow> User) \<Rightarrow> User list \<Rightarrow> User list" where
  "user_updateMany wh change users = map (\<lambda>u. if wh u then change u else u) users"

definition user_create :: "User \<Rightarrow> User list \<Rightarrow> error + (User \<times> User list)" where
  "user_create row users =
     (if list_ex (\<lambda>u. id' u = id' row) users then Inl (UniqueConstraintViolation ''id'')
      else if list_ex (\<lambda>u. email u = email row) users then Inl (UniqueConstraintViolation ''email'')
      else if list_ex (\<lambda>u. phone u = phone row) users then Inl (UniqueConstraintViolation ''phone'')
      else Inr (row, users @ [row]))"

text \<open>
  A new row: the columns every \<open>create\<close> call of the controller gives, and for the others
  the defaults of the migration (\<open>status\<close> \<open>ACTIVE\<close>, \<open>emailVerified\<close> and
  \<open>phoneVerified\<close> false, \<open>createdAt\<close> the current time, nullable columns null).
\<close>

definition newUser ::
  "string \<Rightarrow> nat \<Rightarrow> string \<Rightarrow> string \<Rightarrow> string \<Rightarrow> string \<Rightarrow> string option \<Rightarrow> UserRole \<Rightarrow> User" where
  "newUser newId now firstName' lastName' email' phone' passwordHash' role' =
     \<lparr>id' = newId, firstName = firstName', lastName = lastName', email = email', phone = phone',
      passwordHash = passwordHash', avatarUrl = None, role = role', status = ACTIVE,
      emailVerified = False, phoneVerified = False, lastLoginAt = None,
      resetPasswordToken = None, resetPasswordExpires = None, createdAt = now,
      emailVerificationCode = None, emailVerificationExpires = None\<rparr>"

definition emailVerification_findFirst ::
  "(EmailVerification \<Rightarrow> bool) \<Rightarrow> EmailVerification list \<Rightarrow> EmailVerification option" where
  "emailVerification_findFirst wh table = find wh table"

definition emailVerification_deleteMany ::
  "(EmailVerification \<Rightarrow> bool) \<Rightarrow> EmailVerification list \<Rightarrow> EmailVerification list" where
  "emailVerification_deleteMany wh table = filter (\<lambda>v. \<not> wh v) table"

definition emailVerification_delete :: "string \<Rightarrow> EmailVerification list \<Rightarrow> EmailVerification list" where
  "emailVerification_delete i table = filter (\<lambda>v. EmailVerification.id' v \<noteq> i) table"

definition emailVerification_create ::
  "EmailVerification \<Rightarrow> EmailVerification list \<Rightarrow> error + EmailVerification list" where
  "emailVerification_create row table =
     (if list_ex (\<lambda>v. EmailVerification.id' v = EmailVerification.id' row) table
      then Inl (UniqueConstraintViolation ''id'')
      else Inr (table @ [row]))"

section \<open>One-time-code store, first revision (\<open>utils/otp.utils.ts\<close>)\<close>

definition otpConfig_expiryMinutes_rev1 :: nat where
  "otpConfig_expiryMinutes_rev1 = 2"

definition getOTPExpiry_rev1 :: "nat \<Rightarrow> nat" where
  "getOTPExpiry_rev1 now = now + otpConfig_expiryMinutes_rev1 * 60 * 1000"

text \<open>
  \<open>entropy\<close> is the randomness of \<open>generateOTP\<close>, \<open>newId\<close> the primary key the client
  generates for the new row. The result is \<open>{ code, expiresAt }\<close>, or the error thrown,
  and the table as the calls made so far leave it.
\<close>

definition createOrUpdateOTP_rev1 ::
  "nat \<Rightarrow> nat \<Rightarrow> string \<Rightarrow> string \<Rightarrow> EmailVerification list
   \<Rightarrow> (error + (string \<times> nat)) \<times> EmailVerification list" where
  "createOrUpdateOTP_rev1 now entropy newId email' table =
     (let code' = generateOTP entropy;
          expiresAt' = getOTPExpiry_rev1 now;
          table1 = emailVerification_deleteMany (\<lambda>v. EmailVerification.email v = email') table
      in case emailVerification_create
                \<lparr>EmailVerification.id' = newId, EmailVerification.email = email',
                 code = code', expiresAt = expiresAt'\<rparr> table1 of
           Inl e \<Rightarrow> (Inl e, table1)
         | Inr table2 \<Rightarrow> (Inr (code', expiresAt'), table2))"

definition verifyOTP_rev1 ::
  "nat \<Rightarrow> string \<Rightarrow> string \<Rightarrow> EmailVerification list \<Rightarrow> bool \<times> EmailVerification list" where
  "verifyOTP_rev1 now email' code' table =
     (case emailVerification_findFirst
              (\<lambda>v. EmailVerification.email v = email' \<and> code v = code') table of
        None \<Rightarrow> (False, table)
      | Some verification \<Rightarrow>
          if now > expiresAt verification
          then (False, emailVerification_delete (EmailVerification.id' verification) table)
          else (True, emailVerification_delete (EmailVerification.id' verification) table))"

definition deleteOTP_rev1 :: "string \<Rightarrow> EmailVerification list \<Rightarrow> EmailVerification list" where
  "deleteOTP_rev1 email' table =
     emailVerification_deleteMany (\<lambda>v. EmailVerification.email v = email') table"

definition cleanupExpiredOTPs_rev1 :: "nat \<Rightarrow> EmailVerification list \<Rightarrow> nat \<times> EmailVerification list" where
  "cleanupExpiredOTPs_rev1 now table =
     (length (filter (\<lambda>v. expiresAt v < now) table),
      emailVerification_deleteMany (\<lambda>v. expiresAt v < now) table)"

section \<open>One-time-code store, second revision (the code on the \<open>User\<close> row)\<close>

definition otpConfig_expiryMinutes_rev2 :: nat where
  "otpConfig_expiryMinutes_rev2 = 10"

definition getOTPExpiry_rev2 :: "nat \<Rightarrow> nat" where
  "getOTPExpiry_rev2 now = now + otpConfig_expiryMinutes_rev2 * 60 * 1000"

text \<open>
  \<open>String.prototype.trim\<close> removes white space at both ends. Of the white-space code
  points of the language those below 256 are modelled: tab, line feed, vertical tab,
  form feed, carriage return, space and no-break space.
\<close>

definition isWhiteSpace :: "char \<Rightarrow> bool" where
  "isWhiteSpace c = (of_char c \<in> {9, 10, 11, 12, 13, 32, 160 :: nat})"

definition trim :: "string \<Rightarrow> string" where
  "trim s = rev (dropWhile isWhiteSpace (rev (dropWhile isWhiteSpace s)))"

definition clearOTP :: "User \<Rightarrow> User" where
  "clearOTP u = u\<lparr>emailVerificationCode := None, emailVerificationExpires := None\<rparr>"

definition createOrUpdateOTP_rev2 ::
  "nat \<Rightarrow> nat \<Rightarrow> string \<Rightarrow> User list \<Rightarrow> (error + (string \<times> nat)) \<times> User list" where
  "createOrUpdateOTP_rev2 now entropy email' users =
     (let code' = generateOTP entropy;
          expiresAt' = getOTPExpiry_rev2 now
      in case user_findUnique_email email' users of
           None \<Rightarrow> (Inl (PlainError ''User not found''), users)
         | Some user' \<Rightarrow>
             (Inr (code', expiresAt'),
              user_update (id' user')
                (\<lambda>u. u\<lparr>emailVerificationCode := Some code',
                        emailVerificationExpires := Some expiresAt'\<rparr>) users))"

text \<open>
  \<open>!user.emailVerificationCode\<close> holds for \<open>null\<close> and for the empty string,
  \<open>!user.emailVerificationExpires\<close> for \<open>null\<close>.
\<close>

definition verifyOTP_rev2 :: "nat \<Rightarrow> string \<Rightarrow> string \<Rightarrow> User list \<Rightarrow> bool \<times> User list" where
  "verifyOTP_rev2 now email' code' users =
     (case user_findUnique_email email' users of
        None \<Rightarrow> (False, users)
      | Some user' \<Rightarrow>
          (case (emailVerificationCode user', emailVerificationExpires user') of
             (Some stored, Some expires) \<Rightarrow>
               if stored = [] then (False, users)
               else
                 let normalizedInputCode = trim code';
                     storedCode = trim stored
                 in if normalizedInputCode \<noteq> storedCode then (False, users)
                    else if now > expires
                    then (False, user_update (id' user') clearOTP users)
                    else (True, users)
           | _ \<Rightarrow> (False, users)))"

definition deleteOTP_rev2 :: "string \<Rightarrow> User list \<Rightarrow> User list" where
  "deleteOTP_rev2 email' users =
     (case user_findUnique_email email' users of
        None \<Rightarrow> users
      | Some user' \<Rightarrow> user_update (id' user') clearOTP users)"

definition cleanupExpiredOTPs_rev2 :: "nat \<Rightarrow> User list \<Rightarrow> nat \<times> User list" where
  "cleanupExpiredOTPs_rev2 now users =
     (let wh = (\<lambda>u. (case emailVerificationExpires u of None \<Rightarrow> False | Some e \<Rightarrow> e < now)
                    \<and> emailVerificationCode u \<noteq> None)
      in (length (filter wh users), user_updateMany wh clearOTP users))"

subsection \<open>The operations of the store, in sequence\<close>

text \<open>
  A history of the store is a list of calls of its four functions; a step runs one call
  and keeps the table it leaves.
\<close>

datatype otp_op =
    CreateOrUpdateOTP nat nat string string
  | VerifyOTP nat string string
  | DeleteOTP string
  | CleanupExpiredOTPs nat

fun step_rev1 :: "otp_op \<Rightarrow> EmailVerification list \<Rightarrow> EmailVerification list" where
  "step_rev1 (CreateOrUpdateOTP now entropy newId email') table =
     snd (createOrUpdateOTP_rev1 now entropy newId email' table)"
| "step_rev1 (VerifyOTP now email' code') table = snd (verifyOTP_rev1 now email' code' table)"
| "step_rev1 (DeleteOTP email') table = deleteOTP_rev1 email' table"
| "step_rev1 (CleanupExpiredOTPs now) table = snd (cleanupExpiredOTPs_rev1 now table)"

fun step_rev2 :: "otp_op \<Rightarrow> User list \<Rightarrow> User list" where
  "step_rev2 (CreateOrUpdateOTP now entropy newId email') users =
     snd (createOrUpdateOTP_rev2 now entropy email' users)"
| "step_rev2 (VerifyOTP now email' code') users = snd (verifyOTP_rev2 now email' code' users)"
| "step_rev2 (DeleteOTP email') users = deleteOTP_rev2 email' users"
| "step_rev2 (CleanupExpiredOTPs now) users = snd (cleanupExpiredOTPs_rev2 now users)"

definition run_rev1 :: "otp_op list \<Rightarrow> EmailVerification list \<Rightarrow> EmailVerification list" where
  "run_rev1 ops table = foldl (\<lambda>t op. step_rev1 op t) table ops"

definition run_rev2 :: "otp_op list \<Rightarrow> User list \<Rightarrow> User list" where
  "run_rev2 ops users = foldl (\<lambda>t op. step_rev2 op t) users ops"

text \<open>The live codes of an email: the stored records, or the code on the user row.\<close>

definition liveCodes_rev1 :: "string \<Rightarrow> EmailVerification list \<Rightarrow> string list" where
  "liveCodes_rev1 email' table = map code (filter (\<lambda>v. EmailVerification.email v = email') table)"

definition liveCodes_rev2 :: "string \<Rightarrow> User list \<Rightarrow> string list" where
  "liveCodes_rev2 email' users =
     concat (map (\<lambda>u. case emailVerificationCode u of None \<Rightarrow> [] | Some c \<Rightarrow> [c])
                 (filter (\<lambda>u. email u = email') users))"

section \<open>Session orchestration (\<open>controllers/auth.controller.ts\<close>)\<close>

text \<open>
  A handler takes the fields it reads from the request, the collaborators, the clock
  (\<open>now\<close>, the instant at which the request is handled) and the \<open>User\<close> table, and
  returns what it does with \<open>res\<close> or \<open>next\<close> and the new table. A string field that is
  absent from the body is the empty string; both are falsy. A local variable \<open>user\<close> of
  the source is written \<open>user'\<close>.
\<close>

definition truthy :: "string option \<Rightarrow> string option" where
  "truthy v = (case v of None \<Rightarrow> None | Some s \<Rightarrow> if s = [] then None else Some s)"

definition authPayload :: "User \<Rightarrow> AuthPayload" where
  "authPayload user' =
     \<lparr>userId = id' user', AuthPayload.email = email user', AuthPayload.role = role user'\<rparr>"

text \<open>
  The \<open>userResponse\<close> object each handler builds; \<open>avatarUrl\<close> is spread in only when
  truthy.
\<close>

definition userResponse :: "User \<Rightarrow> string option \<Rightarrow> UserResponse" where
  "userResponse user' avatarUrl' =
     \<lparr>UserResponse.id' = id' user',
      UserResponse.firstName = firstName user',
      UserResponse.lastName = lastName user',
      UserResponse.email = email user',
      UserResponse.phone = phone user',
      UserResponse.avatarUrl = truthy avatarUrl',
      UserResponse.role = role user',
      UserResponse.status = status user',
      UserResponse.emailVerified = emailVerified user',
      UserResponse.phoneVerified = phoneVerified user',
      UserResponse.createdAt = createdAt user'\<rparr>"

definition authResponse :: "Env \<Rightarrow> nat \<Rightarrow> User \<Rightarrow> string option \<Rightarrow> AuthResponse" where
  "authResponse env now user' avatarUrl' =
     (let pair = generateTokenPair env now (authPayload user')
      in \<lparr>user = userResponse user' avatarUrl',
          accessToken = TokenPair.accessToken pair,
          refreshToken = TokenPair.refreshToken pair\<rparr>)"

text \<open>
  \<open>register\<close>. \<open>newId\<close> is the primary key generated for the row, \<open>salt\<close> the salt
  \<open>bcrypt\<close> draws, \<open>avatar\<close> the outcome of \<open>generateAndUploadAvatar\<close>: \<open>Some url\<close>, or
  \<open>None\<close> when it throws (the failure is logged and registration goes on).
\<close>

definition register ::
  "Crypto \<Rightarrow> Env \<Rightarrow> nat \<Rightarrow> string \<Rightarrow> string \<Rightarrow> string option
   \<Rightarrow> string \<Rightarrow> string \<Rightarrow> string \<Rightarrow> string \<Rightarrow> string \<Rightarrow> UserRole option
   \<Rightarrow> User list \<Rightarrow> (error + AuthResponse response) \<times> User list" where
  "register crypto env now newId salt avatar firstName' lastName' email' phone' password role' users =
     (case user_findFirst (\<lambda>u. email u = email' \<or> phone u = phone') users of
        Some existingUser \<Rightarrow>
          (Inl (HttpError 409 ''User with this email or phone already exists''), users)
      | None \<Rightarrow>
          let passwordHash' = hashPassword crypto salt password
          in (case user_create
                     (newUser newId now firstName' lastName' email' phone' (Some passwordHash')
                        (case role' of None \<Rightarrow> CUSTOMER | Some r \<Rightarrow> r)) users of
                Inl e \<Rightarrow> (Inl e, users)
              | Inr (user', users1) \<Rightarrow>
                  let users2 =
                        (case avatar of
                           None \<Rightarrow> users1
                         | Some url \<Rightarrow>
                             user_update (id' user') (\<lambda>u. u\<lparr>avatarUrl := Some url\<rparr>) users1)
                  in (Inr (Json 201
                             (ApiResponseBuilder_created now ''User registered successfully''
                                (authResponse env now user' avatar))),
                      users2)))"

definition login ::
  "Crypto \<Rightarrow> Env \<Rightarrow> nat \<Rightarrow> string \<Rightarrow> string \<Rightarrow> User list
   \<Rightarrow> (error + AuthResponse response) \<times> User list" where
  "login crypto env now email' password users =
     (case user_findUnique_email email' users of
        None \<Rightarrow> (Inl (HttpError 401 ''Invalid email or password''), users)
      | Some user' \<Rightarrow>
          (case truthy (passwordHash user') of
             None \<Rightarrow> (Inl (HttpError 401 ''Please login with Google instead''), users)
           | Some hash \<Rightarrow>
               let isPasswordValid = comparePassword crypto password hash
               in if \<not> isPasswordValid
                  then (Inl (HttpError 401 ''Invalid email or password''), users)
                  else if status user' \<noteq> ACTIVE
                  then (Inl (HttpError 403 ''Account is not active''), users)
                  else
                    (Inr (Json 200
                            (ApiResponseBuilder_success now ''Login successful''
                               (Some (authResponse env now user' (avatarUrl user'))))),
                     user_update (id' user') (\<lambda>u. u\<lparr>lastLoginAt := Some now\<rparr>) users)))"

subsection \<open>Password reset (\<open>utils/password.reset.ts\<close>, \<open>services/email.service.ts\<close>)\<close>

definition hashResetToken :: "Crypto \<Rightarrow> string \<Rightarrow> string" where
  "hashResetToken crypto token = sha256_hex crypto token"

text \<open>
  \<open>getResetTokenExpiry\<close> adds the minutes with \<open>setMinutes(getMinutes() + m)\<close>, that is
  on the local wall clock: the local value of the current instant, moved by the
  minutes, converted back.
\<close>

definition getResetTokenExpiry :: "TimeZone \<Rightarrow> PasswordResetConfig \<Rightarrow> nat \<Rightarrow> nat" where
  "getResetTokenExpiry tz config now =
     UTC tz (LocalTime tz now + expiryMinutes config * 60 * 1000)"

text \<open>
  The mail functions send through \<open>transporter.sendMail\<close> inside \<open>try\<close>/\<open>catch\<close>:
  they return \<open>true\<close> when it resolves and \<open>false\<close> when it throws, and never throw.
  \<open>sendMail_resolves\<close> is the outcome of the delivery.
\<close>

definition sendPasswordResetEmail :: "bool \<Rightarrow> string \<Rightarrow> string \<Rightarrow> nat \<Rightarrow> bool" where
  "sendPasswordResetEmail sendMail_resolves email' resetUrl expiresInHours =
     (if sendMail_resolves then True else False)"

definition sendPasswordChangeConfirmationEmail :: "bool \<Rightarrow> string \<Rightarrow> string \<Rightarrow> bool" where
  "sendPasswordChangeConfirmationEmail sendMail_resolves email' firstName' =
     (if sendMail_resolves then True else False)"

text \<open>
  \<open>forgotPassword\<close>. \<open>resetToken\<close> is the value of \<open>generateResetToken()\<close>, the
  hexadecimal form of \<open>tokenLength\<close> random bytes. The result of the mail function is
  dropped, as in the source.
\<close>

definition forgotPassword ::
  "Crypto \<Rightarrow> Env \<Rightarrow> TimeZone \<Rightarrow> PasswordResetConfig \<Rightarrow> nat \<Rightarrow> string \<Rightarrow> bool \<Rightarrow> string
   \<Rightarrow> User list \<Rightarrow> (error + unit response) \<times> User list" where
  "forgotPassword crypto env tz config now resetToken sendMail_resolves email' users =
     (if email' = [] then (Inl (HttpError 400 ''Email is required''), users)
      else
        (case user_findUnique_email email' users of
           None \<Rightarrow>
             (Inr (Json 200
                     (ApiResponseBuilder_success now
                        ''If an account exists, a reset link will be sent'' None)),
              users)
         | Some user' \<Rightarrow>
             let hashedToken = hashResetToken crypto resetToken;
                 expiresAt' = getResetTokenExpiry tz config now;
                 users1 = user_update (id' user')
                            (\<lambda>u. u\<lparr>resetPasswordToken := Some hashedToken,
                                    resetPasswordExpires := Some expiresAt'\<rparr>) users;
                 resetUrl = orDefault (env_FRONTEND_URL env) ''http://localhost:3000''
                              @ ''/reset-password?token='' @ resetToken;
                 sent = sendPasswordResetEmail sendMail_resolves email' resetUrl 1
             in (Inr (Json 200
                        (ApiResponseBuilder_success now
                           ''If an account exists, a reset link will be sent'' None)),
                 users1)))"

text \<open>
  \<open>resetPassword\<close>. The \<open>where\<close> of its one lookup is a conjunction: the stored hash
  equals the hash of the presented token, and the stored expiry is greater than the
  clock (a null expiry matches no \<open>gt\<close> filter).
\<close>

definition resetTokenWhere :: "string \<Rightarrow> nat \<Rightarrow> User \<Rightarrow> bool" where
  "resetTokenWhere hashedToken now u =
     (resetPasswordToken u = Some hashedToken
      \<and> (case resetPasswordExpires u of None \<Rightarrow> False | Some e \<Rightarrow> e > now))"

definition resetPassword ::
  "Crypto \<Rightarrow> nat \<Rightarrow> string \<Rightarrow> bool \<Rightarrow> string \<Rightarrow> string \<Rightarrow> User list
   \<Rightarrow> (error + unit response) \<times> User list" where
  "resetPassword crypto now salt sendMail_resolves token newPassword users =
     (if token = [] \<or> newPassword = []
      then (Inl (HttpError 400 ''Token and new password are required''), users)
      else
        let hashedToken = hashResetToken crypto token
        in (case user_findFirst (resetTokenWhere hashedToken now) users of
              None \<Rightarrow> (Inl (HttpError 400 ''Invalid or expired reset token''), users)
            | Some user' \<Rightarrow>
                let passwordHash' = hashPassword crypto salt newPassword;
                    users1 = user_update (id' user')
                               (\<lambda>u. u\<lparr>passwordHash := Some passwordHash',
                                       resetPasswordToken := None,
                                       resetPasswordExpires := None\<rparr>) users;
                    sent = sendPasswordChangeConfirmationEmail sendMail_resolves
                             (email user') (firstName user')
                in (Inr (Json 200
                           (ApiResponseBuilder_success now
                              ''Password has been reset successfully'' None)),
                    users1)))"

subsection \<open>External identity exchange\<close>

text \<open>
  \<open>googleCallback\<close>. \<open>code'\<close> and \<open>state'\<close> are the query parameters, \<open>storedState\<close> the
  cookie, \<open>google\<close> the outcome of the two network calls \<open>exchangeCodeForTokens\<close> and
  \<open>getGoogleUserInfo\<close>: the profile, or the error they throw.
\<close>

definition googleCallback ::
  "Env \<Rightarrow> nat \<Rightarrow> string \<Rightarrow> string option \<Rightarrow> string option \<Rightarrow> string option
   \<Rightarrow> error + GoogleUser \<Rightarrow> User list \<Rightarrow> (error + unit response) \<times> User list" where
  "googleCallback env now newId code' state' storedState google users =
     (if truthy code' = None \<or> truthy state' = None
      then (Inl (HttpError 400 ''Authorization code and state are required''), users)
      else if state' \<noteq> storedState
      then (Inl (HttpError 400 ''Invalid state parameter''), users)
      else
        (case google of
           Inl e \<Rightarrow> (Inl e, users)
         | Inr googleUser \<Rightarrow>
             (case (case user_findUnique_email (GoogleUser.email googleUser) users of
                      None \<Rightarrow>
                        user_create
                          ((newUser newId now
                              (orDefault (given_name googleUser) ''User'')
                              (orDefault (family_name googleUser) [])
                              (GoogleUser.email googleUser) [] None CUSTOMER)
                           \<lparr>avatarUrl := picture googleUser, status := ACTIVE,
                            emailVerified := True\<rparr>) users
                    | Some found \<Rightarrow>
                        if status found \<noteq> ACTIVE
                        then Inl (HttpError 403 ''Account is not active'')
                        else Inr (found, users)) of
                Inl e \<Rightarrow> (Inl e, users)
              | Inr (user', users1) \<Rightarrow>
                  let pair = generateTokenPair env now (authPayload user')
                  in (Inr (Redirect
                             (orDefault (env_FRONTEND_URL env) ''http://localhost:3000''
                                @ ''/auth/callback'')
                             (TokenPair.accessToken pair) (TokenPair.refreshToken pair)),
                      users1))))"

subsection \<open>The uniqueness invariant of the identifiers\<close>

text \<open>No two rows share an email and no two share a phone.\<close>

definition uniqueIdentifiers :: "User list \<Rightarrow> bool" where
  "uniqueIdentifiers users = (distinct (map email users) \<and> distinct (map phone users))"

section \<open>Sample data of the worked examples\<close>

text \<open>
  The concrete inputs of the worked examples: a toy instance of the hash functions (any
  functions will do), the environment with no variable set, a reset configuration,
  accounts, Google profiles and stored codes.
\<close>

definition sampleCrypto :: Crypto where
  "sampleCrypto =
     \<lparr>bcrypt_hash = (\<lambda>password rounds salt. ''$2a$'' @ salt @ ''$'' @ password),
      bcrypt_compare =
        (\<lambda>password hash. hash = ''$2a$s1$'' @ password \<or> hash = ''$2a$s2$'' @ password),
      sha256_hex = (\<lambda>s. ''sha256:'' @ s)\<rparr>"

definition sampleEnv :: Env where
  "sampleEnv = \<lparr>env_JWT_SECRET = None, env_JWT_REFRESH_SECRET = None, env_FRONTEND_URL = None\<rparr>"

definition sampleTimeZone :: TimeZone where
  "sampleTimeZone = \<lparr>LocalTime = (\<lambda>t. t + 7200000), UTC = (\<lambda>t. t - 7200000)\<rparr>"

definition sharedSecretEnv :: Env where
  "sharedSecretEnv =
     \<lparr>env_JWT_SECRET = Some ''one-secret'', env_JWT_REFRESH_SECRET = Some ''one-secret'',
      env_FRONTEND_URL = None\<rparr>"

definition sampleConfig :: PasswordResetConfig where
  "sampleConfig = \<lparr>tokenLength = 32, expiryMinutes = 60\<rparr>"

definition alice :: User where
  "alice = newUser ''u1'' 1000 ''A'' ''B'' ''a@x.com'' ''+15550000001'' (Some ''$2a$s1$Password1'') CUSTOMER"

definition bob :: User where
  "bob = newUser ''u2'' 2000 ''C'' ''D'' ''b@x.com'' ''+15550000002'' (Some ''$2a$s2$Password2'') SELLER"

definition aliceReset :: User where
  "aliceReset = alice\<lparr>resetPasswordToken := Some ''sha256:tok1'', resetPasswordExpires := Some 9000\<rparr>"

definition carol :: User where
  "carol = newUser ''u3'' 3000 ''E'' ''F'' ''c@x.com'' ''+15550000003'' (Some ''$2a$s1$Password3'') CUSTOMER"

definition gina :: User where
  "gina = (newUser ''u4'' 4000 ''G'' ''A'' ''ga@x.com'' [] None CUSTOMER)\<lparr>emailVerified := True\<rparr>"

definition ginaProfile :: GoogleUser where
  "ginaProfile = \<lparr>GoogleUser.id' = ''g1'', GoogleUser.email = ''ga@x.com'', name = ''G A'',
                   picture = None, given_name = Some ''G'', family_name = Some ''A''\<rparr>"

definition hugoProfile :: GoogleUser where
  "hugoProfile = \<lparr>GoogleUser.id' = ''g2'', GoogleUser.email = ''gb@x.com'', name = ''H B'',
                   picture = None, given_name = Some ''H'', family_name = Some ''B''\<rparr>"

definition otpA :: EmailVerification where
  "otpA = \<lparr>EmailVerification.id' = ''v1'', EmailVerification.email = ''a@x.com'',
           code = ''123456'', expiresAt = 120000\<rparr>"

definition otpB :: EmailVerification where
  "otpB = \<lparr>EmailVerification.id' = ''v2'', EmailVerification.email = ''a@x.com'',
           code = ''100000'', expiresAt = 121000\<rparr>"

definition aliceOTP :: User where
  "aliceOTP = alice\<lparr>emailVerificationCode := Some ''123456'', emailVerificationExpires := Some 600000\<rparr>"

definition aliceOTP2 :: User where
  "aliceOTP2 = alice\<lparr>emailVerificationCode := Some ''100000'', emailVerificationExpires := Some 601000\<rparr>"

definition aliceClaims :: AuthPayload where
  "aliceClaims = \<lparr>userId = ''u1'', AuthPayload.email = ''a@x.com'', AuthPayload.role = CUSTOMER\<rparr>"

section \<open>Properties of the header parser\<close>

lemma startsWith_Bearer_nonempty: "startsWith h ''Bearer '' \<Longrightarrow> h \<noteq> []"
  by (auto simp: startsWith_def)

text \<open>
  Claim C10. \<open>extractTokenFromHeader\<close> returns \<open>null\<close> for an undefined header and for
  every header that does not begin with \<open>Bearer \<close> (the bare scheme, another scheme and
  another casing among them), and otherwise the header without its first 7 characters;
  so \<open>authenticate\<close> answers 401 \<open>Access token is required\<close> to every request whose
  header does not begin with \<open>Bearer \<close>, whatever the verifier is.
\<close>

theorem extractTokenFromHeader_bearer:
  "extractTokenFromHeader None = None
   \<and> (\<not> startsWith h ''Bearer '' \<longrightarrow> extractTokenFromHeader (Some h) = None)
   \<and> (startsWith h ''Bearer '' \<longrightarrow> extractTokenFromHeader (Some h) = Some (drop 7 h))
   \<and> extractTokenFromHeader (Some ''Bearer'') = None
   \<and> extractTokenFromHeader (Some ''Basic dXNlcjpwdw=='') = None
   \<and> extractTokenFromHeader (Some ''bearer abc'') = None
   \<and> authenticate verify None = Inl (HttpError 401 ''Access token is required'')
   \<and> (\<not> startsWith h ''Bearer '' \<longrightarrow>
        authenticate verify (Some h) = Inl (HttpError 401 ''Access token is required''))"
proof -
  have undefined_header: "extractTokenFromHeader None = None"
    by (simp add: extractTokenFromHeader_def)
  have other: "extractTokenFromHeader (Some k) = None" if "\<not> startsWith k ''Bearer ''" for k
    using that by (simp add: extractTokenFromHeader_def)
  have bearer: "extractTokenFromHeader (Some h) = Some (drop 7 h)" if "startsWith h ''Bearer ''"
    using that startsWith_Bearer_nonempty [OF that]
    by (simp add: extractTokenFromHeader_def substring_def)
  have bare: "\<not> startsWith ''Bearer'' ''Bearer ''"
    and basic: "\<not> startsWith ''Basic dXNlcjpwdw=='' ''Bearer ''"
    and lower: "\<not> startsWith ''bearer abc'' ''Bearer ''"
    by (simp_all add: startsWith_def)
  have reject_none: "authenticate verify None = Inl (HttpError 401 ''Access token is required'')"
    by (simp add: authenticate_def undefined_header)
  have reject: "authenticate verify (Some h) = Inl (HttpError 401 ''Access token is required'')"
    if "\<not> startsWith h ''Bearer ''"
    by (simp add: authenticate_def other [OF that])
  show ?thesis
    using undefined_header other [of h] bearer other [OF bare] other [OF basic] other [OF lower]
      reject_none reject
    by blast
qed

theorem extractTokenFromHeader_bearer_witness:
  "startsWith ''Bearer abc.def.ghi'' ''Bearer ''
   \<and> extractTokenFromHeader (Some ''Bearer abc.def.ghi'') = Some ''abc.def.ghi''
   \<and> \<not> startsWith ''Token abc.def.ghi'' ''Bearer ''
   \<and> extractTokenFromHeader (Some ''Token abc.def.ghi'') = None
   \<and> authenticate (\<lambda>t. Inr t) (Some ''Token abc.def.ghi'')
       = Inl (HttpError 401 ''Access token is required'')"
proof -
  have yes: "startsWith ''Bearer abc.def.ghi'' ''Bearer ''"
    and no: "\<not> startsWith ''Token abc.def.ghi'' ''Bearer ''"
    by (simp_all add: startsWith_def)
  show ?thesis
    using yes no
      extractTokenFromHeader_bearer [of "''Bearer abc.def.ghi''" "\<lambda>t. Inr t"]
      extractTokenFromHeader_bearer [of "''Token abc.def.ghi''" "\<lambda>t. Inr t"]
    by simp
qed

section \<open>Properties of the code generator\<close>

lemma toString_lt10: "n < 10 \<Longrightarrow> toString n = [digitChar n]"
  by (subst toString.simps) simp

lemma toString_ge10: "10 \<le> n \<Longrightarrow> toString n = toString (n div 10) @ [digitChar (n mod 10)]"
  by (subst toString.simps) simp

lemma toString_nonempty: "toString n \<noteq> []"
  by (subst toString.simps) simp

lemma digitChar_digit: "d < 10 \<Longrightarrow> digitChar d \<in> set ''0123456789''"
  unfolding digitChar_def by (rule nth_mem) simp

lemma digitChar_inj: "d < 10 \<Longrightarrow> d' < 10 \<Longrightarrow> digitChar d = digitChar d' \<Longrightarrow> d = d'"
  unfolding digitChar_def using nth_eq_iff_index_eq [of "''0123456789''" d d'] by simp

lemma digitChar_nonzero: "0 < d \<Longrightarrow> d < 10 \<Longrightarrow> digitChar d \<noteq> CHR ''0''"
  using digitChar_inj [of d 0] by (auto simp: digitChar_def)

lemma toString_digits: "set (toString n) \<subseteq> set ''0123456789''"
proof (induction n rule: toString.induct)
  case (1 n)
  show ?case
  proof (cases "n < 10")
    case True
    then show ?thesis using digitChar_digit [of n] by (simp add: toString_lt10)
  next
    case False
    then have "n mod 10 < 10" by simp
    with False 1 digitChar_digit [of "n mod 10"] show ?thesis
      by (simp add: toString_ge10)
  qed
qed

lemma hd_toString: "0 < n \<Longrightarrow> hd (toString n) \<noteq> CHR ''0''"
proof (induction n rule: toString.induct)
  case (1 n)
  show ?case
  proof (cases "n < 10")
    case True
    with 1 show ?thesis by (simp add: toString_lt10 digitChar_nonzero)
  next
    case False
    then have "0 < n div 10" by simp
    with False 1 show ?thesis
      by (simp add: toString_ge10 toString_nonempty)
  qed
qed

lemma length_toString: "10 ^ k \<le> n \<Longrightarrow> n < 10 ^ Suc k \<Longrightarrow> length (toString n) = Suc k"
proof (induction k arbitrary: n)
  case 0
  then show ?case by (simp add: toString_lt10)
next
  case (Suc k)
  have "(10::nat) \<le> 10 ^ Suc k" by simp
  from this Suc.prems(1) have ge: "10 \<le> n" by (rule order_trans)
  from Suc.prems have "10 * 10 ^ k \<le> n" "n < 10 * 10 ^ Suc k"
    by simp_all
  then have "10 ^ k \<le> n div 10" "n div 10 < 10 ^ Suc k"
    by linarith+
  then have "length (toString (n div 10)) = Suc k" by (rule Suc.IH)
  with ge show ?case by (simp add: toString_ge10)
qed

lemma toString_inj: "toString n = toString m \<Longrightarrow> n = m"
proof (induction n arbitrary: m rule: toString.induct)
  case (1 n)
  show ?case
  proof (cases "n < 10")
    case n_small: True
    show ?thesis
    proof (cases "m < 10")
      case True
      with n_small "1.prems" show ?thesis
        by (simp add: toString_lt10 digitChar_inj)
    next
      case False
      with n_small "1.prems" toString_nonempty [of "m div 10"] show ?thesis
        by (auto simp: toString_lt10 toString_ge10)
    qed
  next
    case n_big: False
    show ?thesis
    proof (cases "m < 10")
      case True
      with n_big "1.prems" toString_nonempty [of "n div 10"] show ?thesis
        by (auto simp: toString_lt10 toString_ge10)
    next
      case False
      with n_big "1.prems" have eq: "toString (n div 10) = toString (m div 10)"
        and d: "digitChar (n mod 10) = digitChar (m mod 10)"
        by (simp_all add: toString_ge10)
      from eq n_big have "n div 10 = m div 10" by (rule "1.IH" [rotated])
      moreover from d have "n mod 10 = m mod 10" by (simp add: digitChar_inj)
      ultimately show ?thesis by (metis div_mult_mod_eq)
    qed
  qed
qed

lemma randomInt_otp_bounds:
  "100000 \<le> randomInt e (10 ^ (otpConfig_length - 1)) (10 ^ otpConfig_length - 1)
   \<and> randomInt e (10 ^ (otpConfig_length - 1)) (10 ^ otpConfig_length - 1) < 999999"
  by (simp add: randomInt_def otpConfig_length_def)

lemma length_toString_6: "100000 \<le> n \<Longrightarrow> n < 1000000 \<Longrightarrow> length (toString n) = 6"
  using length_toString [of 5 n] by simp

lemma generateOTP_eq:
  "generateOTP e = toString (randomInt e (10 ^ (otpConfig_length - 1)) (10 ^ otpConfig_length - 1))"
proof -
  let ?r = "randomInt e (10 ^ (otpConfig_length - 1)) (10 ^ otpConfig_length - 1)"
  have "length (toString ?r) = 6"
    using randomInt_otp_bounds [of e] by (intro length_toString_6) simp_all
  then show ?thesis
    by (simp add: generateOTP_def padStart_def otpConfig_length_def)
qed

lemma generateOTP_length: "length (generateOTP e) = 6"
  using randomInt_otp_bounds [of e] by (simp add: generateOTP_eq length_toString_6)

lemma generateOTP_digits: "set (generateOTP e) \<subseteq> set ''0123456789''"
  unfolding generateOTP_eq by (rule toString_digits)

lemma generateOTP_hd: "hd (generateOTP e) \<noteq> CHR ''0''"
  unfolding generateOTP_eq using randomInt_otp_bounds [of e] by (intro hd_toString) simp

lemma generateOTP_possible: "toString ` {100000..<999999} \<subseteq> range generateOTP"
proof
  fix c assume "c \<in> toString ` {100000..<999999}"
  then obtain n where n: "100000 \<le> n" "n < 999999" and c: "c = toString n" by auto
  have "randomInt (n - 100000) (10 ^ (otpConfig_length - 1)) (10 ^ otpConfig_length - 1) = n"
    using n by (simp add: randomInt_def otpConfig_length_def)
  then have "generateOTP (n - 100000) = c" by (simp add: generateOTP_eq c)
  then show "c \<in> range generateOTP" by blast
qed

lemma generateOTP_inj:
  "(generateOTP e = generateOTP e')
   = (randomInt e (10 ^ (otpConfig_length - 1)) (10 ^ otpConfig_length - 1)
      = randomInt e' (10 ^ (otpConfig_length - 1)) (10 ^ otpConfig_length - 1))"
  unfolding generateOTP_eq using toString_inj by auto

text \<open>
  Claim C7, as amended. \<open>generateOTP\<close> returns a 6-character numeric code that never
  begins with \<open>0\<close>: the draw starts at \<open>10 ^ 5\<close>, so the padding adds nothing. Every
  value in \<open>100000\<close> .. \<open>999998\<close> is a possible output, and two runs give the same
  code exactly when \<open>crypto.randomInt\<close> drew the same integer, so the uniform draw makes
  all possible outputs equally likely.
\<close>

theorem generateOTP_codes:
  "length (generateOTP e) = 6
   \<and> set (generateOTP e) \<subseteq> set ''0123456789''
   \<and> hd (generateOTP e) \<noteq> CHR ''0''
   \<and> toString ` {100000..<999999} \<subseteq> range generateOTP
   \<and> ((generateOTP e = generateOTP e')
        = (randomInt e (10 ^ (otpConfig_length - 1)) (10 ^ otpConfig_length - 1)
           = randomInt e' (10 ^ (otpConfig_length - 1)) (10 ^ otpConfig_length - 1)))"
  using generateOTP_length [of e] generateOTP_digits [of e] generateOTP_hd [of e]
    generateOTP_possible generateOTP_inj [of e e']
  by blast

theorem generateOTP_codes_witness:
  "generateOTP 23456 = ''123456''
   \<and> length (generateOTP 23456) = 6
   \<and> hd (generateOTP 23456) \<noteq> CHR ''0''
   \<and> generateOTP 23456 \<noteq> generateOTP 23457"
proof -
  have a: "generateOTP 23456 = ''123456''"
    by (simp add: generateOTP_eq randomInt_def otpConfig_length_def toString_ge10 toString_lt10
        digitChar_def)
  have b: "randomInt 23456 (10 ^ (otpConfig_length - 1)) (10 ^ otpConfig_length - 1)
           \<noteq> randomInt 23457 (10 ^ (otpConfig_length - 1)) (10 ^ otpConfig_length - 1)"
    by (simp add: randomInt_def otpConfig_length_def)
  show ?thesis
    using a b generateOTP_codes [of 23456 23457] by simp
qed

text \<open>
  The claim as stated fails: no run returns \<open>000000\<close>, a value of the space it names.
\<close>

theorem generateOTP_leading_zero_counterexample:
  "''000000'' \<notin> range generateOTP"
proof
  assume "''000000'' \<in> range generateOTP"
  then obtain e where "generateOTP e = ''000000''" by auto
  with generateOTP_hd [of e] show False by simp
qed

section \<open>Properties of the token issuer\<close>

lemma jwt_sign_payload:
  "jwt_sign c k e now
     = Jwt k (AuthPayload.extend c \<lparr>iat = Some (now div 1000), exp = Some (now div 1000 + e)\<rparr>)"
  by (simp add: jwt_sign_def Let_def)

lemma exp_extend: "exp (AuthPayload.extend c \<lparr>iat = i, exp = x\<rparr>) = x"
  by (simp add: AuthPayload.defs)

lemma claims_extend:
  "userId (AuthPayload.extend c m) = userId c"
  "AuthPayload.email (AuthPayload.extend c m) = AuthPayload.email c"
  "AuthPayload.role (AuthPayload.extend c m) = AuthPayload.role c"
  by (simp_all add: AuthPayload.defs)

lemma verifyAccessToken_own:
  "now' div 1000 < now div 1000 + ACCESS_TOKEN_EXPIRY \<Longrightarrow>
   verifyAccessToken env now' (generateAccessToken env now c)
     = Inr (AuthPayload.extend c
              \<lparr>iat = Some (now div 1000), exp = Some (now div 1000 + ACCESS_TOKEN_EXPIRY)\<rparr>)"
  by (simp add: verifyAccessToken_def generateAccessToken_def jwt_sign_payload exp_extend)

lemma verifyAccessToken_refresh:
  "JWT_REFRESH_SECRET env \<noteq> JWT_SECRET env \<Longrightarrow>
   verifyAccessToken env now' (generateRefreshToken env now c)
     = Inl (HttpError 401 ''Invalid or expired access token'')"
  by (simp add: verifyAccessToken_def generateRefreshToken_def jwt_sign_payload)

lemma sampleEnv_secrets: "JWT_REFRESH_SECRET sampleEnv \<noteq> JWT_SECRET sampleEnv"
  by (simp add: JWT_SECRET_def JWT_REFRESH_SECRET_def orDefault_def sampleEnv_def)

lemma verifyRefreshToken_own:
  "verifyRefreshToken env now (generateRefreshToken env now c)
     = Inr (AuthPayload.extend c
              \<lparr>iat = Some (now div 1000), exp = Some (now div 1000 + REFRESH_TOKEN_EXPIRY)\<rparr>)"
  by (simp add: verifyRefreshToken_def generateRefreshToken_def jwt_sign_payload exp_extend
      REFRESH_TOKEN_EXPIRY_def)

lemma unset_secrets:
  "env_JWT_SECRET env = None \<Longrightarrow> env_JWT_REFRESH_SECRET env = None
   \<Longrightarrow> JWT_REFRESH_SECRET env \<noteq> JWT_SECRET env"
  by (simp add: JWT_SECRET_def JWT_REFRESH_SECRET_def orDefault_def)

text \<open>
  Claim C1, as amended. Verifying an access token that was just issued for the claims
  \<open>c\<close> succeeds and returns \<open>c\<close> with \<open>iat\<close> and \<open>exp\<close> added; so does verifying it at
  any later time \<open>now'\<close> before its expiry, and the \<open>userId\<close>, \<open>email\<close> and \<open>role\<close> of
  the result are those of \<open>c\<close>. The refresh token for \<open>c\<close> is a token that verifies
  under the refresh secret. Whenever the configured refresh secret differs from the
  access secret, as it does when neither variable is set, that token makes
  \<open>verifyAccessToken\<close> fail with 401 \<open>Invalid or expired access token\<close>.
\<close>

theorem verifyAccessToken_roundtrip:
  "verifyAccessToken env now (generateAccessToken env now c)
     = Inr (AuthPayload.extend c
              \<lparr>iat = Some (now div 1000), exp = Some (now div 1000 + ACCESS_TOKEN_EXPIRY)\<rparr>)
   \<and> (now' div 1000 < now div 1000 + ACCESS_TOKEN_EXPIRY \<longrightarrow>
        (\<exists>decoded. verifyAccessToken env now' (generateAccessToken env now c) = Inr decoded
           \<and> userId decoded = userId c
           \<and> AuthPayload.email decoded = AuthPayload.email c
           \<and> AuthPayload.role decoded = AuthPayload.role c))
   \<and> verifyRefreshToken env now (generateRefreshToken env now c)
       = Inr (AuthPayload.extend c
                \<lparr>iat = Some (now div 1000), exp = Some (now div 1000 + REFRESH_TOKEN_EXPIRY)\<rparr>)
   \<and> (JWT_REFRESH_SECRET env \<noteq> JWT_SECRET env \<longrightarrow>
        verifyAccessToken env now' (generateRefreshToken env now c)
          = Inl (HttpError 401 ''Invalid or expired access token''))
   \<and> (env_JWT_SECRET env = None \<and> env_JWT_REFRESH_SECRET env = None \<longrightarrow>
        verifyAccessToken env now' (generateRefreshToken env now c)
          = Inl (HttpError 401 ''Invalid or expired access token''))"
proof -
  have "now div 1000 < now div 1000 + ACCESS_TOKEN_EXPIRY"
    by (simp add: ACCESS_TOKEN_EXPIRY_def)
  then have immediate: "verifyAccessToken env now (generateAccessToken env now c)
     = Inr (AuthPayload.extend c
              \<lparr>iat = Some (now div 1000), exp = Some (now div 1000 + ACCESS_TOKEN_EXPIRY)\<rparr>)"
    by (rule verifyAccessToken_own)
  have later: "\<exists>decoded. verifyAccessToken env now' (generateAccessToken env now c) = Inr decoded
           \<and> userId decoded = userId c
           \<and> AuthPayload.email decoded = AuthPayload.email c
           \<and> AuthPayload.role decoded = AuthPayload.role c"
    if "now' div 1000 < now div 1000 + ACCESS_TOKEN_EXPIRY"
    using verifyAccessToken_own [OF that, of env c] by (simp add: claims_extend)
  have unset: "verifyAccessToken env now' (generateRefreshToken env now c)
          = Inl (HttpError 401 ''Invalid or expired access token'')"
    if "env_JWT_SECRET env = None" "env_JWT_REFRESH_SECRET env = None"
    using unset_secrets [OF that] by (rule verifyAccessToken_refresh)
  show ?thesis
    using immediate later verifyRefreshToken_own [of env now c]
      verifyAccessToken_refresh [of env now' now c] unset
    by blast
qed

theorem verifyAccessToken_roundtrip_witness:
  "1700003600000 div 1000 < (1700000000000::nat) div 1000 + ACCESS_TOKEN_EXPIRY
   \<and> JWT_REFRESH_SECRET sampleEnv \<noteq> JWT_SECRET sampleEnv
   \<and> env_JWT_SECRET sampleEnv = None \<and> env_JWT_REFRESH_SECRET sampleEnv = None
   \<and> verifyAccessToken sampleEnv 1700003600000 (generateAccessToken sampleEnv 1700000000000 aliceClaims)
       = Inr \<lparr>userId = ''u1'', AuthPayload.email = ''a@x.com'', AuthPayload.role = CUSTOMER,
              iat = Some 1700000000, exp = Some 1700086400\<rparr>
   \<and> (\<exists>decoded. verifyAccessToken sampleEnv 1700003600000
                    (generateAccessToken sampleEnv 1700000000000 aliceClaims) = Inr decoded
          \<and> userId decoded = ''u1'' \<and> AuthPayload.email decoded = ''a@x.com''
          \<and> AuthPayload.role decoded = CUSTOMER)
   \<and> verifyRefreshToken sampleEnv 1700000000000 (generateRefreshToken sampleEnv 1700000000000 aliceClaims)
       = Inr \<lparr>userId = ''u1'', AuthPayload.email = ''a@x.com'', AuthPayload.role = CUSTOMER,
              iat = Some 1700000000, exp = Some 1700604800\<rparr>
   \<and> verifyAccessToken sampleEnv 1700003600000 (generateRefreshToken sampleEnv 1700000000000 aliceClaims)
       = Inl (HttpError 401 ''Invalid or expired access token'')"
proof -
  have t: "1700003600000 div 1000 < (1700000000000::nat) div 1000 + ACCESS_TOKEN_EXPIRY"
    by (simp add: ACCESS_TOKEN_EXPIRY_def)
  have n: "env_JWT_SECRET sampleEnv = None" "env_JWT_REFRESH_SECRET sampleEnv = None"
    by (simp_all add: sampleEnv_def)
  have v: "verifyAccessToken sampleEnv 1700003600000
             (generateAccessToken sampleEnv 1700000000000 aliceClaims)
           = Inr \<lparr>userId = ''u1'', AuthPayload.email = ''a@x.com'', AuthPayload.role = CUSTOMER,
                  iat = Some 1700000000, exp = Some 1700086400\<rparr>"
    by (simp add: verifyAccessToken_own [OF t] aliceClaims_def AuthPayload.defs
        ACCESS_TOKEN_EXPIRY_def)
  note run = verifyAccessToken_roundtrip [of sampleEnv 1700000000000 aliceClaims 1700003600000]
  have r: "verifyRefreshToken sampleEnv 1700000000000
             (generateRefreshToken sampleEnv 1700000000000 aliceClaims)
           = Inr \<lparr>userId = ''u1'', AuthPayload.email = ''a@x.com'', AuthPayload.role = CUSTOMER,
                  iat = Some 1700000000, exp = Some 1700604800\<rparr>"
    using run [THEN conjunct2, THEN conjunct2, THEN conjunct1]
    by (simp add: aliceClaims_def AuthPayload.defs REFRESH_TOKEN_EXPIRY_def)
  have later: "\<exists>decoded. verifyAccessToken sampleEnv 1700003600000
                    (generateAccessToken sampleEnv 1700000000000 aliceClaims) = Inr decoded
          \<and> userId decoded = ''u1'' \<and> AuthPayload.email decoded = ''a@x.com''
          \<and> AuthPayload.role decoded = CUSTOMER"
    using run [THEN conjunct2, THEN conjunct1, THEN mp, OF t] by (simp add: aliceClaims_def)
  have rejected: "verifyAccessToken sampleEnv 1700003600000
                    (generateRefreshToken sampleEnv 1700000000000 aliceClaims)
                  = Inl (HttpError 401 ''Invalid or expired access token'')"
    by (rule run [THEN conjunct2, THEN conjunct2, THEN conjunct2, THEN conjunct1, THEN mp,
          OF sampleEnv_secrets])
  from t sampleEnv_secrets n v later r rejected show ?thesis
    by (intro conjI)
qed

text \<open>
  The claim as stated fails: nothing keeps the two secrets apart. When the environment
  gives both variables the same value, the refresh token for the claims of the sample
  account passes \<open>verifyAccessToken\<close>.
\<close>

theorem verifyAccessToken_refresh_counterexample:
  "verifyAccessToken sharedSecretEnv 1700000000000
     (generateRefreshToken sharedSecretEnv 1700000000000 aliceClaims)
     = Inr \<lparr>userId = ''u1'', AuthPayload.email = ''a@x.com'', AuthPayload.role = CUSTOMER,
            iat = Some 1700000000, exp = Some 1700604800\<rparr>
   \<and> verifyAccessToken sharedSecretEnv 1700000000000
       (generateRefreshToken sharedSecretEnv 1700000000000 aliceClaims)
       \<noteq> Inl (HttpError 401 ''Invalid or expired access token'')"
proof -
  have "verifyAccessToken sharedSecretEnv 1700000000000
     (generateRefreshToken sharedSecretEnv 1700000000000 aliceClaims)
     = Inr \<lparr>userId = ''u1'', AuthPayload.email = ''a@x.com'', AuthPayload.role = CUSTOMER,
            iat = Some 1700000000, exp = Some 1700604800\<rparr>"
    by (simp add: verifyAccessToken_def generateRefreshToken_def jwt_sign_payload exp_extend
        JWT_SECRET_def JWT_REFRESH_SECRET_def orDefault_def sharedSecretEnv_def
        REFRESH_TOKEN_EXPIRY_def aliceClaims_def AuthPayload.defs)
  then show ?thesis by simp
qed

section \<open>Properties of \<open>login\<close>\<close>

lemma truthy_Some: "h \<noteq> [] \<Longrightarrow> truthy (Some h) = Some h"
  by (simp add: truthy_def)

text \<open>
  Claim C2. For an account whose status is not \<open>ACTIVE\<close> (\<open>SUSPENDED\<close> among them), a
  login whose password verifies against the stored hash fails with 403
  \<open>Account is not active\<close> and changes nothing. The status is looked at last: with a
  wrong password, with no password hash or with no account the failure is 401, whatever
  the status.
\<close>

theorem login_status_check:
  assumes "status u \<noteq> ACTIVE"
  shows
  "(user_findUnique_email email' users = Some u \<and> passwordHash u = Some h \<and> h \<noteq> []
      \<and> comparePassword crypto password h
      \<longrightarrow> login crypto env now email' password users
            = (Inl (HttpError 403 ''Account is not active''), users))
   \<and> (user_findUnique_email email' users = Some u \<and> passwordHash u = Some h \<and> h \<noteq> []
      \<and> \<not> comparePassword crypto password h
      \<longrightarrow> login crypto env now email' password users
            = (Inl (HttpError 401 ''Invalid email or password''), users))
   \<and> (user_findUnique_email email' users = Some u \<and> truthy (passwordHash u) = None
      \<longrightarrow> login crypto env now email' password users
            = (Inl (HttpError 401 ''Please login with Google instead''), users))
   \<and> (user_findUnique_email email' users = None
      \<longrightarrow> login crypto env now email' password users
            = (Inl (HttpError 401 ''Invalid email or password''), users))"
  using assms by (simp add: login_def truthy_Some Let_def)

lemma find_alice_suspended: "user_findUnique_email ''a@x.com'' [alice\<lparr>status := SUSPENDED\<rparr>, bob] = Some (alice\<lparr>status := SUSPENDED\<rparr>)"
  by (simp add: user_findUnique_email_def alice_def newUser_def)

lemma sampleCrypto_compare: "comparePassword sampleCrypto ''Password1'' ''$2a$s1$Password1''"
  by (simp add: comparePassword_def sampleCrypto_def)

theorem login_status_check_witness:
  "status (alice\<lparr>status := SUSPENDED\<rparr>) \<noteq> ACTIVE
   \<and> user_findUnique_email ''a@x.com'' [alice\<lparr>status := SUSPENDED\<rparr>, bob] = Some (alice\<lparr>status := SUSPENDED\<rparr>)
   \<and> passwordHash (alice\<lparr>status := SUSPENDED\<rparr>) = Some ''$2a$s1$Password1''
   \<and> comparePassword sampleCrypto ''Password1'' ''$2a$s1$Password1''
   \<and> login sampleCrypto sampleEnv 5000 ''a@x.com'' ''Password1'' [alice\<lparr>status := SUSPENDED\<rparr>, bob]
       = (Inl (HttpError 403 ''Account is not active''), [alice\<lparr>status := SUSPENDED\<rparr>, bob])
   \<and> \<not> comparePassword sampleCrypto ''wrong'' ''$2a$s1$Password1''
   \<and> login sampleCrypto sampleEnv 5000 ''a@x.com'' ''wrong'' [alice\<lparr>status := SUSPENDED\<rparr>, bob]
       = (Inl (HttpError 401 ''Invalid email or password''), [alice\<lparr>status := SUSPENDED\<rparr>, bob])"
proof -
  have s: "status (alice\<lparr>status := SUSPENDED\<rparr>) \<noteq> ACTIVE" by simp
  have h: "passwordHash (alice\<lparr>status := SUSPENDED\<rparr>) = Some ''$2a$s1$Password1''"
    by (simp add: alice_def newUser_def)
  have w: "\<not> comparePassword sampleCrypto ''wrong'' ''$2a$s1$Password1''"
    by (simp add: comparePassword_def sampleCrypto_def)
  show ?thesis
    using s h w sampleCrypto_compare find_alice_suspended
      login_status_check [OF s, of "''a@x.com''" "[alice\<lparr>status := SUSPENDED\<rparr>, bob]"
        "''$2a$s1$Password1''" sampleCrypto "''Password1''" sampleEnv 5000]
      login_status_check [OF s, of "''a@x.com''" "[alice\<lparr>status := SUSPENDED\<rparr>, bob]"
        "''$2a$s1$Password1''" sampleCrypto "''wrong''" sampleEnv 5000]
    by simp
qed

section \<open>Properties of \<open>resetPassword\<close>\<close>

lemma resetPassword_unfold:
  "token \<noteq> [] \<Longrightarrow> newPassword \<noteq> [] \<Longrightarrow>
   resetPassword crypto now salt mail token newPassword users =
     (case find (resetTokenWhere (hashResetToken crypto token) now) users of
        None \<Rightarrow> (Inl (HttpError 400 ''Invalid or expired reset token''), users)
      | Some u \<Rightarrow>
          (Inr (Json 200 (ApiResponseBuilder_success now ''Password has been reset successfully'' None)),
           user_update (id' u)
             (\<lambda>v. v\<lparr>passwordHash := Some (hashPassword crypto salt newPassword),
                     resetPasswordToken := None, resetPasswordExpires := None\<rparr>) users))"
  unfolding resetPassword_def user_findFirst_def Let_def by simp

lemma user_update_fields:
  "w \<in> set (user_update i change users) \<Longrightarrow> id' w = i \<Longrightarrow> (\<And>v. id' (change v) = id' v)
   \<Longrightarrow> \<exists>v\<in>set users. w = change v"
  by (auto simp: user_update_def split: if_splits)

text \<open>
  Claim C3. With a non-empty token and password: when the account that holds the hash
  of the presented token (no other account holds it) has an expiry that is not in the
  future, \<open>resetPassword\<close> fails with 400 \<open>Invalid or expired reset token\<close> and the
  table is unchanged, so the account keeps its password hash, token hash and expiry.
  The one lookup matches hash and unexpired expiry together: the call succeeds exactly
  when some account has the hash of the token and an expiry after the clock. On success
  the table is changed by one update, which sets the new password hash and clears the
  token hash and the expiry.
\<close>

theorem resetPassword_consume:
  assumes "token \<noteq> []" and "newPassword \<noteq> []"
  shows
  "(u \<in> set users \<and> resetPasswordToken u = Some (hashResetToken crypto token)
      \<and> (\<forall>e. resetPasswordExpires u = Some e \<longrightarrow> e \<le> now)
      \<and> (\<forall>v\<in>set users. resetPasswordToken v = Some (hashResetToken crypto token) \<longrightarrow> v = u)
     \<longrightarrow> resetPassword crypto now salt mail token newPassword users
           = (Inl (HttpError 400 ''Invalid or expired reset token''), users))
   \<and> ((\<exists>r. fst (resetPassword crypto now salt mail token newPassword users) = Inr r)
        = (\<exists>v\<in>set users. resetPasswordToken v = Some (hashResetToken crypto token)
              \<and> (\<exists>e. resetPasswordExpires v = Some e \<and> now < e)))
   \<and> (user_findFirst (resetTokenWhere (hashResetToken crypto token) now) users = Some u'
     \<longrightarrow> resetPassword crypto now salt mail token newPassword users
           = (Inr (Json 200
                     (ApiResponseBuilder_success now ''Password has been reset successfully'' None)),
              user_update (id' u')
                (\<lambda>v. v\<lparr>passwordHash := Some (hashPassword crypto salt newPassword),
                        resetPasswordToken := None, resetPasswordExpires := None\<rparr>) users)
         \<and> (\<forall>w\<in>set (snd (resetPassword crypto now salt mail token newPassword users)).
               id' w = id' u' \<longrightarrow>
                 passwordHash w = Some (hashPassword crypto salt newPassword)
                 \<and> resetPasswordToken w = None \<and> resetPasswordExpires w = None))"
proof -
  let ?P = "resetTokenWhere (hashResetToken crypto token) now"
  note unfold = resetPassword_unfold [OF assms, of crypto now salt mail users]
  have expired: "resetPassword crypto now salt mail token newPassword users
           = (Inl (HttpError 400 ''Invalid or expired reset token''), users)"
    if "u \<in> set users" "resetPasswordToken u = Some (hashResetToken crypto token)"
      "\<forall>e. resetPasswordExpires u = Some e \<longrightarrow> e \<le> now"
      "\<forall>v\<in>set users. resetPasswordToken v = Some (hashResetToken crypto token) \<longrightarrow> v = u"
  proof -
    have "\<not> ?P v" if "v \<in> set users" for v
    proof
      assume m: "?P v"
      then have "v = u" using that \<open>\<forall>v\<in>set users. _\<close> by (simp add: resetTokenWhere_def)
      with m \<open>\<forall>e. _\<close> show False
        by (auto simp: resetTokenWhere_def split: option.splits)
    qed
    then have "find ?P users = None" by (simp add: find_None_iff)
    then show ?thesis by (simp add: unfold)
  qed
  have succeeds: "(\<exists>r. fst (resetPassword crypto now salt mail token newPassword users) = Inr r)
        = (\<exists>v\<in>set users. resetPasswordToken v = Some (hashResetToken crypto token)
              \<and> (\<exists>e. resetPasswordExpires v = Some e \<and> now < e))"
  proof (cases "find ?P users")
    case None
    then have "\<not> (\<exists>v\<in>set users. ?P v)" by (simp add: find_None_iff)
    moreover have "?P v = (resetPasswordToken v = Some (hashResetToken crypto token)
              \<and> (\<exists>e. resetPasswordExpires v = Some e \<and> now < e))" for v
      by (auto simp: resetTokenWhere_def split: option.splits)
    ultimately show ?thesis using None by (simp add: unfold)
  next
    case (Some a)
    then have "a \<in> set users" "?P a" by (auto simp: find_Some_iff)
    then have "\<exists>v\<in>set users. resetPasswordToken v = Some (hashResetToken crypto token)
              \<and> (\<exists>e. resetPasswordExpires v = Some e \<and> now < e)"
      by (auto simp: resetTokenWhere_def split: option.splits)
    then show ?thesis using Some by (simp add: unfold)
  qed
  have success: "resetPassword crypto now salt mail token newPassword users
           = (Inr (Json 200
                     (ApiResponseBuilder_success now ''Password has been reset successfully'' None)),
              user_update (id' u')
                (\<lambda>v. v\<lparr>passwordHash := Some (hashPassword crypto salt newPassword),
                        resetPasswordToken := None, resetPasswordExpires := None\<rparr>) users)
         \<and> (\<forall>w\<in>set (snd (resetPassword crypto now salt mail token newPassword users)).
               id' w = id' u' \<longrightarrow>
                 passwordHash w = Some (hashPassword crypto salt newPassword)
                 \<and> resetPasswordToken w = None \<and> resetPasswordExpires w = None)"
    if "user_findFirst ?P users = Some u'"
  proof -
    from that have f: "find ?P users = Some u'" by (simp add: user_findFirst_def)
    then show ?thesis
      by (auto simp: unfold user_update_def)
  qed
  show ?thesis using expired succeeds success by blast
qed


theorem resetPassword_consume_witness:
  "resetPassword sampleCrypto 9000 ''s1'' True ''tok1'' ''NewPass1'' [aliceReset, bob]
     = (Inl (HttpError 400 ''Invalid or expired reset token''), [aliceReset, bob])
   \<and> user_findFirst (resetTokenWhere (hashResetToken sampleCrypto ''tok1'') 8999) [aliceReset, bob]
       = Some aliceReset
   \<and> resetPassword sampleCrypto 8999 ''s1'' True ''tok1'' ''NewPass1'' [aliceReset, bob]
       = (Inr (Json 200 (ApiResponseBuilder_success 8999 ''Password has been reset successfully'' None)),
          [alice\<lparr>passwordHash := Some ''$2a$s1$NewPass1''\<rparr>, bob])"
proof -
  have t: "''tok1'' \<noteq> []" and p: "''NewPass1'' \<noteq> []" by simp_all
  have holds: "aliceReset \<in> set [aliceReset, bob]
      \<and> resetPasswordToken aliceReset = Some (hashResetToken sampleCrypto ''tok1'')
      \<and> (\<forall>e. resetPasswordExpires aliceReset = Some e \<longrightarrow> e \<le> 9000)
      \<and> (\<forall>v\<in>set [aliceReset, bob].
            resetPasswordToken v = Some (hashResetToken sampleCrypto ''tok1'') \<longrightarrow> v = aliceReset)"
    by (simp add: aliceReset_def alice_def bob_def newUser_def hashResetToken_def sampleCrypto_def)
  have found: "user_findFirst (resetTokenWhere (hashResetToken sampleCrypto ''tok1'') 8999)
                 [aliceReset, bob] = Some aliceReset"
    by (simp add: user_findFirst_def resetTokenWhere_def aliceReset_def alice_def newUser_def
        hashResetToken_def sampleCrypto_def)
  have upd: "user_update (id' aliceReset)
               (\<lambda>v. v\<lparr>passwordHash := Some (hashPassword sampleCrypto ''s1'' ''NewPass1''),
                       resetPasswordToken := None, resetPasswordExpires := None\<rparr>) [aliceReset, bob]
             = [alice\<lparr>passwordHash := Some ''$2a$s1$NewPass1''\<rparr>, bob]"
    by (simp add: user_update_def aliceReset_def alice_def bob_def newUser_def hashPassword_def
        sampleCrypto_def)
  have r1: "resetPassword sampleCrypto 9000 ''s1'' True ''tok1'' ''NewPass1'' [aliceReset, bob]
     = (Inl (HttpError 400 ''Invalid or expired reset token''), [aliceReset, bob])"
    using holds
      resetPassword_consume [OF t p, of aliceReset "[aliceReset, bob]" sampleCrypto 9000 "''s1''" True alice]
    by blast
  have r2: "resetPassword sampleCrypto 8999 ''s1'' True ''tok1'' ''NewPass1'' [aliceReset, bob]
       = (Inr (Json 200 (ApiResponseBuilder_success 8999 ''Password has been reset successfully'' None)),
          user_update (id' aliceReset)
               (\<lambda>v. v\<lparr>passwordHash := Some (hashPassword sampleCrypto ''s1'' ''NewPass1''),
                       resetPasswordToken := None, resetPasswordExpires := None\<rparr>) [aliceReset, bob])"
    using found
      resetPassword_consume [OF t p, of aliceReset "[aliceReset, bob]" sampleCrypto 8999 "''s1''" True aliceReset]
    by blast
  show ?thesis
    unfolding r1 r2 upd using found by simp
qed

section \<open>Properties of \<open>forgotPassword\<close>\<close>

lemma forgotPassword_response:
  "email' \<noteq> [] \<Longrightarrow>
   fst (forgotPassword crypto env tz config now resetToken mail email' users)
     = Inr (Json 200 (ApiResponseBuilder_success now
                        ''If an account exists, a reset link will be sent'' None))"
  by (simp add: forgotPassword_def Let_def split: option.splits)

text \<open>
  Claim C4. Take two requests with a non-empty email, one whose email matches an
  account and one whose email matches none. Each is answered with status 200 and the
  body built from the message \<open>If an account exists, a reset link will be sent\<close> with
  no data, in which only the time stamp of the answer varies; answered at the same
  time the two responses are equal. A failed mail delivery gives the same response as
  a successful one.
\<close>

theorem forgotPassword_uniform:
  assumes "email1 \<noteq> []" and "email2 \<noteq> []"
    and "user_findUnique_email email1 users1 = Some u"
    and "user_findUnique_email email2 users2 = None"
  shows
  "fst (forgotPassword crypto env tz config now1 token1 mail1 email1 users1)
     = Inr (Json 200 (ApiResponseBuilder_success now1
                        ''If an account exists, a reset link will be sent'' None))
   \<and> fst (forgotPassword crypto env tz config now2 token2 mail2 email2 users2)
     = Inr (Json 200 (ApiResponseBuilder_success now2
                        ''If an account exists, a reset link will be sent'' None))
   \<and> (now1 = now2 \<longrightarrow>
        fst (forgotPassword crypto env tz config now1 token1 mail1 email1 users1)
        = fst (forgotPassword crypto env tz config now2 token2 mail2 email2 users2))
   \<and> fst (forgotPassword crypto env tz config now1 token1 False email1 users1)
       = fst (forgotPassword crypto env tz config now1 token1 True email1 users1)"
  using assms(1,2) by (simp add: forgotPassword_response)

theorem forgotPassword_uniform_witness:
  "user_findUnique_email ''a@x.com'' [alice, bob] = Some alice
   \<and> user_findUnique_email ''nonexistent@x.com'' [alice, bob] = None
   \<and> fst (forgotPassword sampleCrypto sampleEnv sampleTimeZone sampleConfig 5000 ''tok1'' False ''a@x.com'' [alice, bob])
       = Inr (Json 200 \<lparr>ApiResponse.status = SUCCESS,
                        message = ''If an account exists, a reset link will be sent'',
                        data = None, meta_timestamp = 5000\<rparr>)
   \<and> fst (forgotPassword sampleCrypto sampleEnv sampleTimeZone sampleConfig 5000 ''tok2'' True ''nonexistent@x.com'' [alice, bob])
       = fst (forgotPassword sampleCrypto sampleEnv sampleTimeZone sampleConfig 5000 ''tok1'' False ''a@x.com'' [alice, bob])
   \<and> snd (forgotPassword sampleCrypto sampleEnv sampleTimeZone sampleConfig 5000 ''tok1'' False ''a@x.com'' [alice, bob])
       = [alice\<lparr>resetPasswordToken := Some ''sha256:tok1'', resetPasswordExpires := Some 3605000\<rparr>, bob]"
proof -
  have e1: "''a@x.com'' \<noteq> []" and e2: "''nonexistent@x.com'' \<noteq> []" by simp_all
  have f1: "user_findUnique_email ''a@x.com'' [alice, bob] = Some alice"
    by (simp add: user_findUnique_email_def alice_def newUser_def)
  have f2: "user_findUnique_email ''nonexistent@x.com'' [alice, bob] = None"
    by (simp add: user_findUnique_email_def alice_def bob_def newUser_def)
  have db: "snd (forgotPassword sampleCrypto sampleEnv sampleTimeZone sampleConfig 5000 ''tok1'' False ''a@x.com'' [alice, bob])
       = [alice\<lparr>resetPasswordToken := Some ''sha256:tok1'', resetPasswordExpires := Some 3605000\<rparr>, bob]"
    apply (simp add: forgotPassword_def f1 Let_def)
    apply (simp add: user_update_def hashResetToken_def getResetTokenExpiry_def sampleTimeZone_def sampleCrypto_def
        sampleConfig_def alice_def bob_def newUser_def)
    done
  note run = forgotPassword_uniform [OF e1 e2 f1 f2, of sampleCrypto sampleEnv sampleTimeZone sampleConfig
      5000 "''tok1''" False 5000 "''tok2''" True]
  show ?thesis
    using f1 f2 db run by (simp add: ApiResponseBuilder_success_def)
qed

section \<open>Properties of \<open>register\<close>\<close>

lemma find_None_list_ex: "(find P xs = None) = (\<not> list_ex P xs)"
  by (auto simp: find_None_iff list_ex_iff)

lemma user_create_ok:
  "\<not> list_ex (\<lambda>u. id' u = id' row) users \<Longrightarrow> \<not> list_ex (\<lambda>u. email u = email row) users
   \<Longrightarrow> \<not> list_ex (\<lambda>u. phone u = phone row) users
   \<Longrightarrow> user_create row users = Inr (row, users @ [row])"
  by (simp add: user_create_def)

lemma user_create_not_409: "user_create row users \<noteq> Inl (HttpError c m)"
  by (simp add: user_create_def)

lemma user_update_append_fresh:
  "id' row = i \<Longrightarrow> \<not> list_ex (\<lambda>u. id' u = i) users
   \<Longrightarrow> user_update i change (users @ [row]) = users @ [change row]"
  by (induction users) (auto simp: user_update_def)

lemma register_conflict:
  assumes "\<exists>u\<in>set users. email u = email' \<or> phone u = phone'"
  shows "register crypto env now newId salt avatar firstName' lastName' email' phone' password role' users
         = (Inl (HttpError 409 ''User with this email or phone already exists''), users)"
proof -
  from assms have "find (\<lambda>u. email u = email' \<or> phone u = phone') users \<noteq> None"
    by (auto simp: find_None_iff)
  then show ?thesis by (auto simp: register_def user_findFirst_def)
qed

lemma register_no_conflict:
  assumes "\<not> (\<exists>u\<in>set users. email u = email' \<or> phone u = phone')"
  shows "fst (register crypto env now newId salt avatar firstName' lastName' email' phone' password role' users)
         \<noteq> Inl (HttpError 409 ''User with this email or phone already exists'')"
proof -
  from assms have "find (\<lambda>u. email u = email' \<or> phone u = phone') users = None"
    by (auto simp: find_None_iff)
  then show ?thesis
    using user_create_not_409
      [of "newUser newId now firstName' lastName' email' phone' (Some (hashPassword crypto salt password))
             (case role' of None \<Rightarrow> CUSTOMER | Some r \<Rightarrow> r)" users]
    by (auto simp: register_def user_findFirst_def Let_def split: sum.splits prod.splits)
qed

lemma register_create:
  assumes nd: "\<not> (\<exists>u\<in>set users. email u = email' \<or> phone u = phone')"
    and fresh: "\<not> (\<exists>u\<in>set users. id' u = newId)"
    and row: "row = newUser newId now firstName' lastName' email' phone'
                      (Some (hashPassword crypto salt password))
                      (case role' of None \<Rightarrow> CUSTOMER | Some r \<Rightarrow> r)"
  shows "register crypto env now newId salt avatar firstName' lastName' email' phone' password role' users
         = (Inr (Json 201 (ApiResponseBuilder_created now ''User registered successfully''
                            (authResponse env now row avatar))),
            users @ [row\<lparr>avatarUrl := avatar\<rparr>])"
proof -
  have i: "id' row = newId" and e: "email row = email'" and p: "phone row = phone'"
    by (simp_all add: row newUser_def)
  have c: "user_create row users = Inr (row, users @ [row])"
    using nd fresh by (intro user_create_ok) (auto simp: i e p list_ex_iff)
  have u: "user_update newId (\<lambda>u. u\<lparr>avatarUrl := Some url\<rparr>) (users @ [row])
           = users @ [row\<lparr>avatarUrl := Some url\<rparr>]" for url
    using fresh by (intro user_update_append_fresh) (auto simp: i list_ex_iff)
  have n: "row\<lparr>avatarUrl := None\<rparr> = row"
    by (simp add: row newUser_def)
  from nd have "find (\<lambda>u. email u = email' \<or> phone u = phone') users = None"
    by (auto simp: find_None_iff)
  then show ?thesis
    by (simp add: register_def user_findFirst_def Let_def row [symmetric] c i u n
        split: option.splits)
qed

lemma authResponse_newUser:
  "authResponse env now (newUser newId now' firstName' lastName' email' phone' hash' role'') avatar
     = \<lparr>user =
          \<lparr>UserResponse.id' = newId, UserResponse.firstName = firstName',
           UserResponse.lastName = lastName', UserResponse.email = email',
           UserResponse.phone = phone',
           UserResponse.avatarUrl =
             (case avatar of None \<Rightarrow> None | Some url \<Rightarrow> if url = [] then None else Some url),
           UserResponse.role = role'', UserResponse.status = ACTIVE,
           UserResponse.emailVerified = False, UserResponse.phoneVerified = False,
           UserResponse.createdAt = now'\<rparr>,
        accessToken =
          Jwt (JWT_SECRET env)
            \<lparr>userId = newId, AuthPayload.email = email', AuthPayload.role = role'',
             iat = Some (now div 1000), exp = Some (now div 1000 + 24 * 60 * 60)\<rparr>,
        refreshToken =
          Jwt (JWT_REFRESH_SECRET env)
            \<lparr>userId = newId, AuthPayload.email = email', AuthPayload.role = role'',
             iat = Some (now div 1000), exp = Some (now div 1000 + 7 * 24 * 60 * 60)\<rparr>\<rparr>"
  by (simp add: authResponse_def userResponse_def truthy_def authPayload_def generateTokenPair_def
      generateAccessToken_def generateRefreshToken_def jwt_sign_payload AuthPayload.defs
      ACCESS_TOKEN_EXPIRY_def REFRESH_TOKEN_EXPIRY_def newUser_def)

text \<open>
  Claim C8. \<open>register\<close> fails with 409 exactly when some row of the table has the
  requested email or the requested phone (one query over both fields), and then the
  table is unchanged. Otherwise, the generated key being new, it appends one account
  with the given names, email and phone, whose role is \<open>CUSTOMER\<close> when none is
  supplied, whose password hash is the \<open>bcrypt\<close> hash (12 rounds) of the supplied
  password, whose status is \<open>ACTIVE\<close> and whose \<open>emailVerified\<close> is false, and answers
  201 with a success body whose data are the public fields of that account, an access
  token and a refresh token, both signed over its identifier, email and role.
\<close>

theorem register_conflict_or_create:
  "(fst (register crypto env now newId salt avatar firstName' lastName' email' phone' password role' users)
      = Inl (HttpError 409 ''User with this email or phone already exists''))
     = (\<exists>u\<in>set users. email u = email' \<or> phone u = phone')
   \<and> ((\<exists>u\<in>set users. email u = email' \<or> phone u = phone')
        \<longrightarrow> snd (register crypto env now newId salt avatar firstName' lastName' email' phone' password role' users) = users)
   \<and> (\<not> (\<exists>u\<in>set users. email u = email' \<or> phone u = phone') \<and> \<not> (\<exists>u\<in>set users. id' u = newId)
        \<longrightarrow> register crypto env now newId salt avatar firstName' lastName' email' phone' password role' users
            = (Inr (Json 201
                 \<lparr>ApiResponse.status = SUCCESS,
                  message = ''User registered successfully'',
                  data = Some
                    \<lparr>user =
                       \<lparr>UserResponse.id' = newId, UserResponse.firstName = firstName',
                        UserResponse.lastName = lastName', UserResponse.email = email',
                        UserResponse.phone = phone',
                        UserResponse.avatarUrl =
                          (case avatar of None \<Rightarrow> None
                           | Some url \<Rightarrow> if url = [] then None else Some url),
                        UserResponse.role = (case role' of None \<Rightarrow> CUSTOMER | Some r \<Rightarrow> r),
                        UserResponse.status = ACTIVE,
                        UserResponse.emailVerified = False, UserResponse.phoneVerified = False,
                        UserResponse.createdAt = now\<rparr>,
                     accessToken =
                       Jwt (JWT_SECRET env)
                         \<lparr>userId = newId, AuthPayload.email = email',
                          AuthPayload.role = (case role' of None \<Rightarrow> CUSTOMER | Some r \<Rightarrow> r),
                          iat = Some (now div 1000),
                          exp = Some (now div 1000 + 24 * 60 * 60)\<rparr>,
                     refreshToken =
                       Jwt (JWT_REFRESH_SECRET env)
                         \<lparr>userId = newId, AuthPayload.email = email',
                          AuthPayload.role = (case role' of None \<Rightarrow> CUSTOMER | Some r \<Rightarrow> r),
                          iat = Some (now div 1000),
                          exp = Some (now div 1000 + 7 * 24 * 60 * 60)\<rparr>\<rparr>,
                  meta_timestamp = now\<rparr>),
               users @
               [\<lparr>id' = newId, firstName = firstName', lastName = lastName', email = email',
                 phone = phone',
                 passwordHash = Some (bcrypt_hash crypto password 12 salt),
                 avatarUrl = avatar,
                 role = (case role' of None \<Rightarrow> CUSTOMER | Some r \<Rightarrow> r),
                 status = ACTIVE, emailVerified = False, phoneVerified = False,
                 lastLoginAt = None, resetPasswordToken = None, resetPasswordExpires = None,
                 createdAt = now, emailVerificationCode = None,
                 emailVerificationExpires = None\<rparr>]))"
proof (intro conjI impI)
  show "(fst (register crypto env now newId salt avatar firstName' lastName' email' phone' password role' users)
      = Inl (HttpError 409 ''User with this email or phone already exists''))
     = (\<exists>u\<in>set users. email u = email' \<or> phone u = phone')"
    using register_conflict [of users email' phone' crypto env now newId salt avatar firstName' lastName' password role']
      register_no_conflict [of users email' phone' crypto env now newId salt avatar firstName' lastName' password role']
    by (cases "\<exists>u\<in>set users. email u = email' \<or> phone u = phone'") simp_all
next
  assume "\<exists>u\<in>set users. email u = email' \<or> phone u = phone'"
  then show "snd (register crypto env now newId salt avatar firstName' lastName' email' phone' password role' users) = users"
    by (simp add: register_conflict)
next
  let ?row = "newUser newId now firstName' lastName' email' phone'
                (Some (hashPassword crypto salt password))
                (case role' of None \<Rightarrow> CUSTOMER | Some r \<Rightarrow> r)"
  assume a: "\<not> (\<exists>u\<in>set users. email u = email' \<or> phone u = phone')
             \<and> \<not> (\<exists>u\<in>set users. id' u = newId)"
  have run: "register crypto env now newId salt avatar firstName' lastName' email' phone' password role' users
         = (Inr (Json 201 (ApiResponseBuilder_created now ''User registered successfully''
                            (authResponse env now ?row avatar))),
            users @ [?row\<lparr>avatarUrl := avatar\<rparr>])"
    using a by (intro register_create) simp_all
  have stored: "?row\<lparr>avatarUrl := avatar\<rparr>
      = \<lparr>id' = newId, firstName = firstName', lastName = lastName', email = email',
                 phone = phone',
                 passwordHash = Some (bcrypt_hash crypto password 12 salt),
                 avatarUrl = avatar,
                 role = (case role' of None \<Rightarrow> CUSTOMER | Some r \<Rightarrow> r),
                 status = ACTIVE, emailVerified = False, phoneVerified = False,
                 lastLoginAt = None, resetPasswordToken = None, resetPasswordExpires = None,
                 createdAt = now, emailVerificationCode = None,
                 emailVerificationExpires = None\<rparr>"
    by (simp add: newUser_def hashPassword_def)
  show "register crypto env now newId salt avatar firstName' lastName' email' phone' password role' users
            = (Inr (Json 201
                 \<lparr>ApiResponse.status = SUCCESS,
                  message = ''User registered successfully'',
                  data = Some
                    \<lparr>user =
                       \<lparr>UserResponse.id' = newId, UserResponse.firstName = firstName',
                        UserResponse.lastName = lastName', UserResponse.email = email',
                        UserResponse.phone = phone',
                        UserResponse.avatarUrl =
                          (case avatar of None \<Rightarrow> None
                           | Some url \<Rightarrow> if url = [] then None else Some url),
                        UserResponse.role = (case role' of None \<Rightarrow> CUSTOMER | Some r \<Rightarrow> r),
                        UserResponse.status = ACTIVE,
                        UserResponse.emailVerified = False, UserResponse.phoneVerified = False,
                        UserResponse.createdAt = now\<rparr>,
                     accessToken =
                       Jwt (JWT_SECRET env)
                         \<lparr>userId = newId, AuthPayload.email = email',
                          AuthPayload.role = (case role' of None \<Rightarrow> CUSTOMER | Some r \<Rightarrow> r),
                          iat = Some (now div 1000),
                          exp = Some (now div 1000 + 24 * 60 * 60)\<rparr>,
                     refreshToken =
                       Jwt (JWT_REFRESH_SECRET env)
                         \<lparr>userId = newId, AuthPayload.email = email',
                          AuthPayload.role = (case role' of None \<Rightarrow> CUSTOMER | Some r \<Rightarrow> r),
                          iat = Some (now div 1000),
                          exp = Some (now div 1000 + 7 * 24 * 60 * 60)\<rparr>\<rparr>,
                  meta_timestamp = now\<rparr>),
               users @
               [\<lparr>id' = newId, firstName = firstName', lastName = lastName', email = email',
                 phone = phone',
                 passwordHash = Some (bcrypt_hash crypto password 12 salt),
                 avatarUrl = avatar,
                 role = (case role' of None \<Rightarrow> CUSTOMER | Some r \<Rightarrow> r),
                 status = ACTIVE, emailVerified = False, phoneVerified = False,
                 lastLoginAt = None, resetPasswordToken = None, resetPasswordExpires = None,
                 createdAt = now, emailVerificationCode = None,
                 emailVerificationExpires = None\<rparr>])"
    unfolding run stored authResponse_newUser ApiResponseBuilder_created_def by simp
qed

theorem register_conflict_or_create_witness:
  "fst (register sampleCrypto sampleEnv 3000 ''u3'' ''s1'' None ''E'' ''F'' ''a@x.com'' ''+15550000003''
          ''Password3'' None [alice, bob])
     = Inl (HttpError 409 ''User with this email or phone already exists'')
   \<and> fst (register sampleCrypto sampleEnv 3000 ''u3'' ''s1'' None ''E'' ''F'' ''c@x.com'' ''+15550000002''
          ''Password3'' None [alice, bob])
     = Inl (HttpError 409 ''User with this email or phone already exists'')
   \<and> snd (register sampleCrypto sampleEnv 3000 ''u3'' ''s1'' None ''E'' ''F'' ''a@x.com'' ''+15550000003''
          ''Password3'' None [alice, bob]) = [alice, bob]
   \<and> register sampleCrypto sampleEnv 3000 ''u3'' ''s1'' (Some ''https://cdn.example/u3.jpeg'')
         ''E'' ''F'' ''c@x.com'' ''+15550000003'' ''Password3'' None [alice, bob]
       = (Inr (Json 201
            \<lparr>ApiResponse.status = SUCCESS,
             message = ''User registered successfully'',
             data = Some
               \<lparr>user =
                  \<lparr>UserResponse.id' = ''u3'', UserResponse.firstName = ''E'',
                   UserResponse.lastName = ''F'', UserResponse.email = ''c@x.com'',
                   UserResponse.phone = ''+15550000003'',
                   UserResponse.avatarUrl = Some ''https://cdn.example/u3.jpeg'',
                   UserResponse.role = CUSTOMER, UserResponse.status = ACTIVE,
                   UserResponse.emailVerified = False, UserResponse.phoneVerified = False,
                   UserResponse.createdAt = 3000\<rparr>,
                accessToken =
                  Jwt ''your-super-secret-jwt-key-change-in-production''
                    \<lparr>userId = ''u3'', AuthPayload.email = ''c@x.com'', AuthPayload.role = CUSTOMER,
                     iat = Some 3, exp = Some 86403\<rparr>,
                refreshToken =
                  Jwt ''your-super-secret-refresh-key-change-in-production''
                    \<lparr>userId = ''u3'', AuthPayload.email = ''c@x.com'', AuthPayload.role = CUSTOMER,
                     iat = Some 3, exp = Some 604803\<rparr>\<rparr>,
             meta_timestamp = 3000\<rparr>),
          [alice, bob, carol\<lparr>avatarUrl := Some ''https://cdn.example/u3.jpeg''\<rparr>])"
proof -
  have dup_email: "\<exists>u\<in>set [alice, bob]. email u = ''a@x.com'' \<or> phone u = ''+15550000003''"
    by (simp add: alice_def newUser_def)
  have dup_phone: "\<exists>u\<in>set [alice, bob]. email u = ''c@x.com'' \<or> phone u = ''+15550000002''"
    by (simp add: bob_def newUser_def)
  have fresh: "\<not> (\<exists>u\<in>set [alice, bob]. email u = ''c@x.com'' \<or> phone u = ''+15550000003'')
               \<and> \<not> (\<exists>u\<in>set [alice, bob]. id' u = ''u3'')"
    by (simp add: alice_def bob_def newUser_def)
  note a = register_conflict_or_create [where crypto = sampleCrypto and env = sampleEnv
      and now = 3000 and newId = "''u3''" and salt = "''s1''" and avatar = None
      and firstName' = "''E''" and lastName' = "''F''" and email' = "''a@x.com''"
      and phone' = "''+15550000003''" and password = "''Password3''" and role' = None
      and users = "[alice, bob]"]
  note b = register_conflict_or_create [where crypto = sampleCrypto and env = sampleEnv
      and now = 3000 and newId = "''u3''" and salt = "''s1''" and avatar = None
      and firstName' = "''E''" and lastName' = "''F''" and email' = "''c@x.com''"
      and phone' = "''+15550000002''" and password = "''Password3''" and role' = None
      and users = "[alice, bob]"]
  note c = register_conflict_or_create [where crypto = sampleCrypto and env = sampleEnv
      and now = 3000 and newId = "''u3''" and salt = "''s1''"
      and avatar = "Some ''https://cdn.example/u3.jpeg''"
      and firstName' = "''E''" and lastName' = "''F''" and email' = "''c@x.com''"
      and phone' = "''+15550000003''" and password = "''Password3''" and role' = None
      and users = "[alice, bob]"]
  have r1: "fst (register sampleCrypto sampleEnv 3000 ''u3'' ''s1'' None ''E'' ''F'' ''a@x.com''
                   ''+15550000003'' ''Password3'' None [alice, bob])
     = Inl (HttpError 409 ''User with this email or phone already exists'')"
    by (rule a [THEN conjunct1, THEN iffD2, OF dup_email])
  have r3: "snd (register sampleCrypto sampleEnv 3000 ''u3'' ''s1'' None ''E'' ''F'' ''a@x.com''
                   ''+15550000003'' ''Password3'' None [alice, bob]) = [alice, bob]"
    by (rule a [THEN conjunct2, THEN conjunct1, THEN mp, OF dup_email])
  have r2: "fst (register sampleCrypto sampleEnv 3000 ''u3'' ''s1'' None ''E'' ''F'' ''c@x.com''
                   ''+15550000002'' ''Password3'' None [alice, bob])
     = Inl (HttpError 409 ''User with this email or phone already exists'')"
    by (rule b [THEN conjunct1, THEN iffD2, OF dup_phone])
  note created = c [THEN conjunct2, THEN conjunct2, THEN mp, OF fresh]
  have secrets: "JWT_SECRET sampleEnv = ''your-super-secret-jwt-key-change-in-production''"
    "JWT_REFRESH_SECRET sampleEnv = ''your-super-secret-refresh-key-change-in-production''"
    by (simp_all add: JWT_SECRET_def JWT_REFRESH_SECRET_def orDefault_def sampleEnv_def)
  have hash: "bcrypt_hash sampleCrypto ''Password3'' 12 ''s1'' = ''$2a$s1$Password3''"
    by (simp add: sampleCrypto_def)
  have r4: "register sampleCrypto sampleEnv 3000 ''u3'' ''s1'' (Some ''https://cdn.example/u3.jpeg'')
         ''E'' ''F'' ''c@x.com'' ''+15550000003'' ''Password3'' None [alice, bob]
       = (Inr (Json 201
            \<lparr>ApiResponse.status = SUCCESS,
             message = ''User registered successfully'',
             data = Some
               \<lparr>user =
                  \<lparr>UserResponse.id' = ''u3'', UserResponse.firstName = ''E'',
                   UserResponse.lastName = ''F'', UserResponse.email = ''c@x.com'',
                   UserResponse.phone = ''+15550000003'',
                   UserResponse.avatarUrl = Some ''https://cdn.example/u3.jpeg'',
                   UserResponse.role = CUSTOMER, UserResponse.status = ACTIVE,
                   UserResponse.emailVerified = False, UserResponse.phoneVerified = False,
                   UserResponse.createdAt = 3000\<rparr>,
                accessToken =
                  Jwt ''your-super-secret-jwt-key-change-in-production''
                    \<lparr>userId = ''u3'', AuthPayload.email = ''c@x.com'', AuthPayload.role = CUSTOMER,
                     iat = Some 3, exp = Some 86403\<rparr>,
                refreshToken =
                  Jwt ''your-super-secret-refresh-key-change-in-production''
                    \<lparr>userId = ''u3'', AuthPayload.email = ''c@x.com'', AuthPayload.role = CUSTOMER,
                     iat = Some 3, exp = Some 604803\<rparr>\<rparr>,
             meta_timestamp = 3000\<rparr>),
          [alice, bob, carol\<lparr>avatarUrl := Some ''https://cdn.example/u3.jpeg''\<rparr>])"
    unfolding created secrets hash by (simp add: carol_def newUser_def)
  from r1 r2 r3 r4 show ?thesis by (intro conjI)
qed

section \<open>Account creation and the uniqueness of identifiers\<close>

lemma user_create_unique:
  "user_create row users = Inr (r, users') \<Longrightarrow> uniqueIdentifiers users \<Longrightarrow> uniqueIdentifiers users'"
  by (fastforce simp: user_create_def uniqueIdentifiers_def list_ex_iff split: if_splits)

lemma user_update_unique:
  "(\<And>u. email (change u) = email u) \<Longrightarrow> (\<And>u. phone (change u) = phone u)
   \<Longrightarrow> uniqueIdentifiers (user_update i change users) = uniqueIdentifiers users"
proof -
  assume e: "\<And>u. email (change u) = email u" and p: "\<And>u. phone (change u) = phone u"
  have "map email (user_update i change users) = map email users"
    by (induction users) (simp_all add: user_update_def e)
  moreover have "map phone (user_update i change users) = map phone users"
    by (induction users) (simp_all add: user_update_def p)
  ultimately show ?thesis by (simp add: uniqueIdentifiers_def)
qed

lemma register_unique:
  "uniqueIdentifiers users \<Longrightarrow>
   uniqueIdentifiers (snd (register crypto env now newId salt avatar firstName' lastName' email' phone' password role' users))"
  by (auto simp: register_def Let_def user_update_unique
      split: option.splits sum.splits prod.splits dest: user_create_unique)

lemma googleCallback_unique:
  "uniqueIdentifiers users \<Longrightarrow>
   uniqueIdentifiers (snd (googleCallback env now newId code' state' storedState google users))"
  by (auto simp: googleCallback_def Let_def
      split: option.splits sum.splits prod.splits if_splits dest: user_create_unique)

lemma googleCallback_phone_collision:
  assumes "truthy code' \<noteq> None" "truthy state' \<noteq> None" "state' = storedState"
    and "user_findUnique_email (GoogleUser.email g) users = None"
    and "\<not> list_ex (\<lambda>u. id' u = newId) users"
    and "list_ex (\<lambda>u. phone u = []) users"
  shows "googleCallback env now newId code' state' storedState (Inr g) users
         = (Inl (UniqueConstraintViolation ''phone''), users)"
proof -
  from assms(4) have "\<not> list_ex (\<lambda>u. email u = GoogleUser.email g) users"
    by (auto simp: user_findUnique_email_def find_None_iff list_ex_iff)
  with assms show ?thesis
    by (simp add: googleCallback_def user_create_def newUser_def)
qed

text \<open>
  Claim C9, evaluated where the code departs from it. A first sign-in through Google
  on a table with no account for the email provisions an account whose phone is the
  empty string. A second sign-in, for another email that no account has, builds a row
  with the empty phone again: the unique index on the phone rejects it, the handler
  passes the error on, and no account is provisioned.
\<close>

theorem googleCallback_second_provisioning:
  "googleCallback sampleEnv 4000 ''u4'' (Some ''code1'') (Some ''st1'') (Some ''st1'')
     (Inr ginaProfile) [alice, bob]
     = (Inr (Redirect ''http://localhost:3000/auth/callback''
               (generateAccessToken sampleEnv 4000 (authPayload gina))
               (generateRefreshToken sampleEnv 4000 (authPayload gina))),
        [alice, bob, gina])
   \<and> phone gina = []
   \<and> user_findUnique_email (GoogleUser.email hugoProfile) [alice, bob, gina] = None
   \<and> googleCallback sampleEnv 5000 ''u5'' (Some ''code2'') (Some ''st2'') (Some ''st2'')
       (Inr hugoProfile) [alice, bob, gina]
       = (Inl (UniqueConstraintViolation ''phone''), [alice, bob, gina])"
proof -
  have n1: "user_findUnique_email (GoogleUser.email ginaProfile) [alice, bob] = None"
    by (simp add: user_findUnique_email_def ginaProfile_def alice_def bob_def newUser_def)
  have first: "googleCallback sampleEnv 4000 ''u4'' (Some ''code1'') (Some ''st1'') (Some ''st1'')
     (Inr ginaProfile) [alice, bob]
     = (Inr (Redirect ''http://localhost:3000/auth/callback''
               (generateAccessToken sampleEnv 4000 (authPayload gina))
               (generateRefreshToken sampleEnv 4000 (authPayload gina))),
        [alice, bob, gina])"
    apply (simp add: googleCallback_def truthy_def n1 Let_def)
    apply (simp add: user_create_def generateTokenPair_def orDefault_def sampleEnv_def
        ginaProfile_def gina_def alice_def bob_def newUser_def)
    done
  have ph: "phone gina = []"
    by (simp add: gina_def newUser_def)
  have n2: "user_findUnique_email (GoogleUser.email hugoProfile) [alice, bob, gina] = None"
    by (simp add: user_findUnique_email_def hugoProfile_def alice_def bob_def gina_def newUser_def)
  have second: "googleCallback sampleEnv 5000 ''u5'' (Some ''code2'') (Some ''st2'') (Some ''st2'')
       (Inr hugoProfile) [alice, bob, gina]
       = (Inl (UniqueConstraintViolation ''phone''), [alice, bob, gina])"
    apply (simp add: googleCallback_def truthy_def n2 Let_def)
    apply (simp add: user_create_def orDefault_def hugoProfile_def gina_def alice_def bob_def
        newUser_def)
    done
  show ?thesis using first ph n2 second by blast
qed

section \<open>Properties of the one-time-code store\<close>

lemma generateOTP_sample: "generateOTP 23456 = ''123456''" "generateOTP 0 = ''100000''"
  by (simp_all add: generateOTP_eq randomInt_def otpConfig_length_def toString_ge10 toString_lt10
      digitChar_def)

subsection \<open>First revision\<close>

lemma filter_email_deleteMany:
  "filter (\<lambda>v. EmailVerification.email v = e) (emailVerification_deleteMany (\<lambda>v. EmailVerification.email v = e) table) = []"
  by (induction table) (simp_all add: emailVerification_deleteMany_def)

lemma createOrUpdateOTP_rev1_live:
  "createOrUpdateOTP_rev1 now entropy newId email' table = (Inr (c, x), table')
   \<Longrightarrow> c = generateOTP entropy \<and> x = getOTPExpiry_rev1 now
       \<and> filter (\<lambda>v. EmailVerification.email v = email') table'
           = [\<lparr>EmailVerification.id' = newId, EmailVerification.email = email', code = c, expiresAt = x\<rparr>]"
  by (auto simp: createOrUpdateOTP_rev1_def Let_def emailVerification_create_def filter_email_deleteMany
      split: if_splits)

lemma find_filter_None:
  "filter P xs = [r] \<Longrightarrow> \<not> Q r \<Longrightarrow> find (\<lambda>v. P v \<and> Q v) xs = None"
proof -
  assume f: "filter P xs = [r]" and q: "\<not> Q r"
  have "v = r" if "v \<in> set xs" "P v" for v
  proof -
    from that have "v \<in> set (filter P xs)" by simp
    with f show ?thesis by simp
  qed
  with q show ?thesis by (auto simp: find_None_iff)
qed

lemma verifyOTP_rev1_superseded:
  assumes "createOrUpdateOTP_rev1 now entropy newId email' table = (Inr (c, x), table')"
    and "old \<noteq> c"
  shows "verifyOTP_rev1 now' email' old table' = (False, table')"
proof -
  from createOrUpdateOTP_rev1_live [OF assms(1)]
  have "filter (\<lambda>v. EmailVerification.email v = email') table'
           = [\<lparr>EmailVerification.id' = newId, EmailVerification.email = email', code = c, expiresAt = x\<rparr>]"
    by simp
  then have "find (\<lambda>v. EmailVerification.email v = email' \<and> code v = old) table' = None"
    using assms(2) by (intro find_filter_None) auto
  then show ?thesis
    by (simp add: verifyOTP_rev1_def emailVerification_findFirst_def)
qed

lemma distinct_filter_map: "distinct (map f xs) \<Longrightarrow> distinct (map f (filter P xs))"
  by (simp add: distinct_map_filter)

lemma step_rev1_distinct:
  "distinct (map EmailVerification.email table) \<Longrightarrow> distinct (map EmailVerification.email (step_rev1 op table))"
proof (cases op)
  case (CreateOrUpdateOTP now entropy newId e)
  assume d: "distinct (map EmailVerification.email table)"
  let ?t1 = "emailVerification_deleteMany (\<lambda>v. EmailVerification.email v = e) table"
  have d1: "distinct (map EmailVerification.email ?t1)"
    using d by (simp add: emailVerification_deleteMany_def distinct_map_filter)
  have "e \<notin> EmailVerification.email ` set ?t1"
    by (auto simp: emailVerification_deleteMany_def)
  with d1 CreateOrUpdateOTP show ?thesis
    by (auto simp: createOrUpdateOTP_rev1_def Let_def emailVerification_create_def)
next
  case (VerifyOTP now e c)
  assume "distinct (map EmailVerification.email table)"
  with VerifyOTP show ?thesis
    by (auto simp: verifyOTP_rev1_def emailVerification_delete_def distinct_map_filter
        split: option.splits)
next
  case (DeleteOTP e)
  assume "distinct (map EmailVerification.email table)"
  with DeleteOTP show ?thesis
    by (simp add: deleteOTP_rev1_def emailVerification_deleteMany_def distinct_map_filter)
next
  case (CleanupExpiredOTPs now)
  assume "distinct (map EmailVerification.email table)"
  with CleanupExpiredOTPs show ?thesis
    by (simp add: cleanupExpiredOTPs_rev1_def emailVerification_deleteMany_def distinct_map_filter)
qed

lemma run_rev1_distinct:
  "distinct (map EmailVerification.email table) \<Longrightarrow> distinct (map EmailVerification.email (run_rev1 ops table))"
  unfolding run_rev1_def
  by (induction ops arbitrary: table) (simp_all add: step_rev1_distinct)

lemma distinct_map_filter_le1:
  "distinct (map f xs) \<Longrightarrow> length (filter (\<lambda>x. f x = e) xs) \<le> 1"
proof (induction xs)
  case Nil then show ?case by simp
next
  case (Cons a xs)
  show ?case
  proof (cases "f a = e")
    case True
    from Cons.prems have "f a \<notin> f ` set xs" by simp
    with True have "\<forall>x\<in>set xs. f x \<noteq> e" by blast
    then have "filter (\<lambda>x. f x = e) xs = []"
      by (simp add: filter_empty_conv)
    with True show ?thesis by simp
  next
    case False
    with Cons show ?thesis by simp
  qed
qed

lemma liveCodes_rev1_le1:
  "distinct (map EmailVerification.email table) \<Longrightarrow> length (liveCodes_rev1 e table) \<le> 1"
  using distinct_map_filter_le1 [of EmailVerification.email table e]
  by (simp add: liveCodes_rev1_def)


subsection \<open>Second revision\<close>

lemma dropWhile_none: "\<forall>c\<in>set s. \<not> P c \<Longrightarrow> dropWhile P s = s"
  by (cases s) simp_all

lemma trim_no_whitespace: "\<forall>c\<in>set s. \<not> isWhiteSpace c \<Longrightarrow> trim s = s"
  by (simp add: trim_def dropWhile_none)

lemma digits_not_whitespace: "c \<in> set ''0123456789'' \<Longrightarrow> \<not> isWhiteSpace c"
  by (auto simp: isWhiteSpace_def)

lemma generateOTP_trim: "trim (generateOTP e) = generateOTP e"
  using generateOTP_digits [of e] digits_not_whitespace
  by (intro trim_no_whitespace) blast

lemma generateOTP_nonempty: "generateOTP e \<noteq> []"
  using generateOTP_length [of e] by auto

lemma find_map_preserving:
  "(\<And>x. P (g x) = P x) \<Longrightarrow> find P (map g xs) = map_option g (find P xs)"
  by (induction xs) simp_all

lemma filter_map_preserving:
  "(\<And>x. P (g x) = P x) \<Longrightarrow> filter P (map g xs) = map g (filter P xs)"
  by (induction xs) simp_all

lemma user_update_find_email:
  "(\<And>u. email (change u) = email u) \<Longrightarrow> user_findUnique_email e users = Some u
   \<Longrightarrow> user_findUnique_email e (user_update (id' u) change users) = Some (change u)"
  unfolding user_findUnique_email_def user_update_def
  by (subst find_map_preserving) simp_all

lemma createOrUpdateOTP_rev2_stored:
  assumes "createOrUpdateOTP_rev2 now entropy email' users = (Inr (c, x), users')"
  shows "\<exists>u. user_findUnique_email email' users = Some u
            \<and> c = generateOTP entropy
            \<and> users' = user_update (id' u)
                 (\<lambda>u. u\<lparr>emailVerificationCode := Some c, emailVerificationExpires := Some x\<rparr>) users
            \<and> user_findUnique_email email' users'
                = Some (u\<lparr>emailVerificationCode := Some c, emailVerificationExpires := Some x\<rparr>)"
proof (cases "user_findUnique_email email' users")
  case None
  with assms show ?thesis by (simp add: createOrUpdateOTP_rev2_def Let_def)
next
  case (Some u)
  with assms have c: "c = generateOTP entropy" and x: "x = getOTPExpiry_rev2 now"
    and u': "users' = user_update (id' u)
                 (\<lambda>u. u\<lparr>emailVerificationCode := Some c, emailVerificationExpires := Some x\<rparr>) users"
    by (auto simp: createOrUpdateOTP_rev2_def Let_def)
  have "user_findUnique_email email' users'
                = Some (u\<lparr>emailVerificationCode := Some c, emailVerificationExpires := Some x\<rparr>)"
    unfolding u' using Some by (intro user_update_find_email) simp_all
  with Some c u' show ?thesis by blast
qed

lemma verifyOTP_rev2_superseded:
  assumes "createOrUpdateOTP_rev2 now entropy email' users = (Inr (c, x), users')"
    and "generateOTP entropy0 \<noteq> c"
  shows "verifyOTP_rev2 now' email' (generateOTP entropy0) users' = (False, users')"
proof -
  from createOrUpdateOTP_rev2_stored [OF assms(1)] obtain u where
    c: "c = generateOTP entropy"
    and f: "user_findUnique_email email' users'
                = Some (u\<lparr>emailVerificationCode := Some c, emailVerificationExpires := Some x\<rparr>)"
    by blast
  show ?thesis
    using assms(2) generateOTP_nonempty [of entropy]
    by (simp add: verifyOTP_rev2_def f Let_def c generateOTP_trim)
qed

lemma map_email_user_update:
  "(\<And>u. email (change u) = email u) \<Longrightarrow> map email (user_update i change users) = map email users"
  by (induction users) (simp_all add: user_update_def)

lemma map_email_user_updateMany:
  "(\<And>u. email (change u) = email u) \<Longrightarrow> map email (user_updateMany wh change users) = map email users"
  by (induction users) (simp_all add: user_updateMany_def)

lemma email_clearOTP: "email (clearOTP u) = email u"
  by (simp add: clearOTP_def)

lemma step_rev2_emails: "map email (step_rev2 op users) = map email users"
  by (cases op)
    (auto simp: createOrUpdateOTP_rev2_def verifyOTP_rev2_def deleteOTP_rev2_def
      cleanupExpiredOTPs_rev2_def Let_def map_email_user_update map_email_user_updateMany
      email_clearOTP split: option.splits)

lemma run_rev2_emails: "map email (run_rev2 ops users) = map email users"
  unfolding run_rev2_def
  by (induction ops arbitrary: users) (simp_all add: step_rev2_emails)

lemma liveCodes_rev2_le1:
  assumes "distinct (map email users)"
  shows "length (liveCodes_rev2 e users) \<le> 1"
proof -
  from distinct_map_filter_le1 [OF assms, of e]
  consider "filter (\<lambda>u. email u = e) users = []" | u where "filter (\<lambda>u. email u = e) users = [u]"
    by (cases "filter (\<lambda>u. email u = e) users") (auto simp: Suc_le_eq)
  then show ?thesis
    by cases (auto simp: liveCodes_rev2_def split: option.splits)
qed

lemma find_filter_singleton:
  "distinct (map f xs) \<Longrightarrow> find (\<lambda>x. f x = e) xs = Some u \<Longrightarrow> filter (\<lambda>x. f x = e) xs = [u]"
proof (induction xs)
  case Nil then show ?case by simp
next
  case (Cons a xs)
  show ?case
  proof (cases "f a = e")
    case True
    from Cons.prems have "f a \<notin> f ` set xs" by simp
    with True have "\<forall>x\<in>set xs. f x \<noteq> e" by blast
    then have "filter (\<lambda>x. f x = e) xs = []" by (simp add: filter_empty_conv)
    with True Cons.prems show ?thesis by simp
  next
    case False
    with Cons show ?thesis by simp
  qed
qed

lemma createOrUpdateOTP_rev2_live:
  assumes "createOrUpdateOTP_rev2 now entropy email' users = (Inr (c, x), users')"
    and "distinct (map email users)"
  shows "liveCodes_rev2 email' users' = [c]"
proof -
  from createOrUpdateOTP_rev2_stored [OF assms(1)] obtain u where
    f: "user_findUnique_email email' users = Some u"
    and u': "users' = user_update (id' u)
                 (\<lambda>u. u\<lparr>emailVerificationCode := Some c, emailVerificationExpires := Some x\<rparr>) users"
    by blast
  let ?g = "\<lambda>v. if id' v = id' u
                 then v\<lparr>emailVerificationCode := Some c, emailVerificationExpires := Some x\<rparr> else v"
  from f assms(2) have one: "filter (\<lambda>v. email v = email') users = [u]"
    unfolding user_findUnique_email_def by (intro find_filter_singleton)
  have "filter (\<lambda>v. email v = email') users' = map ?g (filter (\<lambda>v. email v = email') users)"
    unfolding u' user_update_def by (intro filter_map_preserving) simp
  with one show ?thesis by (simp add: liveCodes_rev2_def)
qed

lemma createOrUpdateOTP_rev1_liveCodes:
  "createOrUpdateOTP_rev1 now entropy newId email' table = (Inr (c, x), table')
   \<Longrightarrow> liveCodes_rev1 email' table' = [c]"
  using createOrUpdateOTP_rev1_live [of now entropy newId email' table c x table']
  by (simp add: liveCodes_rev1_def)

subsection \<open>One live code per email\<close>

text \<open>
  Claim C5. In the first revision, after any history of calls from the empty table an
  email has at most one stored code; when \<open>createOrUpdateOTP\<close> returns a code, that
  code is the only live one of the email, and \<open>verifyOTP\<close> returns false for every
  other code. In the second revision, emails being unique among the rows, an email has
  at most one stored code after any history of calls; when \<open>createOrUpdateOTP\<close>
  returns a code, \<open>verifyOTP\<close> returns false for every code \<open>generateOTP\<close> issues that
  differs from it, and the returned code is the only live one of the email.
\<close>

theorem otp_one_live_code:
  "length (liveCodes_rev1 e (run_rev1 ops [])) \<le> 1
   \<and> (createOrUpdateOTP_rev1 now entropy newId email' table = (Inr (c, x), table')
        \<longrightarrow> liveCodes_rev1 email' table' = [c]
            \<and> (\<forall>old. old \<noteq> c \<longrightarrow> fst (verifyOTP_rev1 now' email' old table') = False))
   \<and> (distinct (map email users) \<longrightarrow> length (liveCodes_rev2 e (run_rev2 ops users)) \<le> 1)
   \<and> (createOrUpdateOTP_rev2 now entropy email' users = (Inr (c, x), users')
        \<longrightarrow> (\<forall>entropy0. generateOTP entropy0 \<noteq> c
                \<longrightarrow> fst (verifyOTP_rev2 now' email' (generateOTP entropy0) users') = False)
            \<and> (distinct (map email users) \<longrightarrow> liveCodes_rev2 email' users' = [c]))"
proof -
  have "distinct (map EmailVerification.email (run_rev1 ops []))"
    by (rule run_rev1_distinct) simp
  then have a: "length (liveCodes_rev1 e (run_rev1 ops [])) \<le> 1"
    by (rule liveCodes_rev1_le1)
  have b: "length (liveCodes_rev2 e (run_rev2 ops users)) \<le> 1" if "distinct (map email users)"
    using that by (intro liveCodes_rev2_le1) (simp add: run_rev2_emails)
  show ?thesis
    using a b createOrUpdateOTP_rev1_liveCodes [of now entropy newId email' table c x table']
      verifyOTP_rev1_superseded [of now entropy newId email' table c x table' _ now']
      verifyOTP_rev2_superseded [of now entropy email' users c x users' _ now']
      createOrUpdateOTP_rev2_live [of now entropy email' users c x users']
    by simp
qed

theorem otp_one_live_code_witness:
  "createOrUpdateOTP_rev1 1000 0 ''v2'' ''a@x.com'' [otpA] = (Inr (''100000'', 121000), [otpB])
   \<and> liveCodes_rev1 ''a@x.com'' [otpB] = [''100000'']
   \<and> fst (verifyOTP_rev1 2000 ''a@x.com'' ''123456'' [otpB]) = False
   \<and> distinct (map email [aliceOTP, bob])
   \<and> createOrUpdateOTP_rev2 1000 0 ''a@x.com'' [aliceOTP, bob]
       = (Inr (''100000'', 601000), [aliceOTP2, bob])
   \<and> generateOTP 23456 = ''123456''
   \<and> fst (verifyOTP_rev2 2000 ''a@x.com'' ''123456'' [aliceOTP2, bob]) = False
   \<and> liveCodes_rev2 ''a@x.com'' [aliceOTP2, bob] = [''100000'']"
proof -
  have h1: "createOrUpdateOTP_rev1 1000 0 ''v2'' ''a@x.com'' [otpA] = (Inr (''100000'', 121000), [otpB])"
    by (simp add: createOrUpdateOTP_rev1_def Let_def generateOTP_sample getOTPExpiry_rev1_def
        otpConfig_expiryMinutes_rev1_def emailVerification_deleteMany_def
        emailVerification_create_def otpA_def otpB_def)
  have d: "distinct (map email [aliceOTP, bob])"
    by (simp add: aliceOTP_def alice_def bob_def newUser_def)
  have f: "user_findUnique_email ''a@x.com'' [aliceOTP, bob] = Some aliceOTP"
    by (simp add: user_findUnique_email_def aliceOTP_def alice_def newUser_def)
  have u: "user_update (id' aliceOTP)
             (\<lambda>u. u\<lparr>emailVerificationCode := Some ''100000'', emailVerificationExpires := Some 601000\<rparr>)
             [aliceOTP, bob] = [aliceOTP2, bob]"
    by (simp add: user_update_def aliceOTP_def aliceOTP2_def alice_def bob_def newUser_def)
  have h2: "createOrUpdateOTP_rev2 1000 0 ''a@x.com'' [aliceOTP, bob]
       = (Inr (''100000'', 601000), [aliceOTP2, bob])"
    by (simp add: createOrUpdateOTP_rev2_def Let_def f generateOTP_sample getOTPExpiry_rev2_def
        otpConfig_expiryMinutes_rev2_def u)
  have n: "''123456'' \<noteq> ''100000''" by simp
  have n': "generateOTP 23456 \<noteq> ''100000''" by (simp add: generateOTP_sample)
  note t1 = otp_one_live_code [where now = 1000 and entropy = 0 and newId = "''v2''"
      and email' = "''a@x.com''" and table = "[otpA]" and c = "''100000''" and x = 121000
      and table' = "[otpB]" and now' = 2000]
  note after1 = t1 [THEN conjunct2, THEN conjunct1, THEN mp, OF h1]
  have r1: "liveCodes_rev1 ''a@x.com'' [otpB] = [''100000'']"
    by (rule after1 [THEN conjunct1])
  have r2: "fst (verifyOTP_rev1 2000 ''a@x.com'' ''123456'' [otpB]) = False"
    by (rule after1 [THEN conjunct2, THEN spec, THEN mp, OF n])
  note t2 = otp_one_live_code [where now = 1000 and entropy = 0
      and email' = "''a@x.com''" and c = "''100000''" and x = 601000
      and users = "[aliceOTP, bob]" and users' = "[aliceOTP2, bob]" and now' = 2000]
  note after2 = t2 [THEN conjunct2, THEN conjunct2, THEN conjunct2, THEN mp, OF h2]
  have r3: "fst (verifyOTP_rev2 2000 ''a@x.com'' (generateOTP 23456) [aliceOTP2, bob]) = False"
    by (rule after2 [THEN conjunct1, THEN spec, THEN mp, OF n'])
  have r4: "liveCodes_rev2 ''a@x.com'' [aliceOTP2, bob] = [''100000'']"
    by (rule after2 [THEN conjunct2, THEN mp, OF d])
  from r3 have r3': "fst (verifyOTP_rev2 2000 ''a@x.com'' ''123456'' [aliceOTP2, bob]) = False"
    by (simp only: generateOTP_sample)
  from h1 r1 r2 d h2 generateOTP_sample(1) r3' r4 show ?thesis
    by (intro conjI)
qed

subsection \<open>What a verification leaves in the store\<close>

lemma verifyOTP_rev2_frame:
  assumes "fst (verifyOTP_rev2 now email' code' users)"
  shows "snd (verifyOTP_rev2 now email' code' users) = users"
proof (cases "user_findUnique_email email' users")
  case None
  then show ?thesis by (simp add: verifyOTP_rev2_def)
next
  case (Some u)
  show ?thesis
  proof (cases "emailVerificationCode u")
    case None
    with Some show ?thesis by (simp add: verifyOTP_rev2_def)
  next
    case stored: (Some s)
    show ?thesis
    proof (cases "emailVerificationExpires u")
      case None
      with Some stored show ?thesis by (simp add: verifyOTP_rev2_def)
    next
      case expires: (Some x)
      show ?thesis
      proof (cases "s \<noteq> [] \<and> trim code' = trim s \<and> \<not> now > x")
        case True
        with Some stored expires show ?thesis by (simp add: verifyOTP_rev2_def Let_def)
      next
        case False
        with Some stored expires have "\<not> fst (verifyOTP_rev2 now email' code' users)"
          by (auto simp: verifyOTP_rev2_def Let_def)
        with assms show ?thesis by simp
      qed
    qed
  qed
qed

lemma verifyOTP_rev1_consumes:
  assumes "fst (verifyOTP_rev1 now email' code' table)"
  shows "\<exists>v. emailVerification_findFirst
                   (\<lambda>v. EmailVerification.email v = email' \<and> code v = code') table = Some v
               \<and> now \<le> expiresAt v
               \<and> snd (verifyOTP_rev1 now email' code' table)
                   = emailVerification_delete (EmailVerification.id' v) table
               \<and> v \<notin> set (snd (verifyOTP_rev1 now email' code' table))"
proof (cases "emailVerification_findFirst
                   (\<lambda>v. EmailVerification.email v = email' \<and> code v = code') table")
  case None
  with assms show ?thesis by (simp add: verifyOTP_rev1_def)
next
  case (Some v)
  show ?thesis
  proof (cases "now > expiresAt v")
    case True
    with Some assms show ?thesis by (simp add: verifyOTP_rev1_def)
  next
    case False
    with Some show ?thesis
      by (simp add: verifyOTP_rev1_def emailVerification_delete_def)
  qed
qed


text \<open>
  Claim C6, as amended. In the second revision a successful \<open>verifyOTP\<close> leaves the
  table unchanged: the live code is not consumed, and callers delete it with
  \<open>deleteOTP\<close> afterwards. In the first revision a successful \<open>verifyOTP\<close> deletes the
  record it matched. On the expired path both revisions clear the record and return
  false.
\<close>

theorem verifyOTP_frame:
  "(fst (verifyOTP_rev2 now email' code' users)
      \<longrightarrow> snd (verifyOTP_rev2 now email' code' users) = users)
   \<and> (fst (verifyOTP_rev1 now email' code' table)
      \<longrightarrow> (\<exists>v. emailVerification_findFirst
                   (\<lambda>v. EmailVerification.email v = email' \<and> code v = code') table = Some v
               \<and> now \<le> expiresAt v
               \<and> snd (verifyOTP_rev1 now email' code' table)
                   = emailVerification_delete (EmailVerification.id' v) table
               \<and> v \<notin> set (snd (verifyOTP_rev1 now email' code' table))))
   \<and> (emailVerification_findFirst
          (\<lambda>v. EmailVerification.email v = email' \<and> code v = code') table = Some w
        \<and> now > expiresAt w
      \<longrightarrow> verifyOTP_rev1 now email' code' table
            = (False, emailVerification_delete (EmailVerification.id' w) table))
   \<and> (user_findUnique_email email' users = Some u
        \<and> emailVerificationCode u = Some stored \<and> stored \<noteq> []
        \<and> emailVerificationExpires u = Some expires
        \<and> trim code' = trim stored \<and> now > expires
      \<longrightarrow> verifyOTP_rev2 now email' code' users = (False, user_update (id' u) clearOTP users))"
proof (intro conjI impI)
  assume "fst (verifyOTP_rev2 now email' code' users)"
  then show "snd (verifyOTP_rev2 now email' code' users) = users"
    by (rule verifyOTP_rev2_frame)
next
  assume "fst (verifyOTP_rev1 now email' code' table)"
  then show "\<exists>v. emailVerification_findFirst
                   (\<lambda>v. EmailVerification.email v = email' \<and> code v = code') table = Some v
               \<and> now \<le> expiresAt v
               \<and> snd (verifyOTP_rev1 now email' code' table)
                   = emailVerification_delete (EmailVerification.id' v) table
               \<and> v \<notin> set (snd (verifyOTP_rev1 now email' code' table))"
    by (rule verifyOTP_rev1_consumes)
next
  assume "emailVerification_findFirst
          (\<lambda>v. EmailVerification.email v = email' \<and> code v = code') table = Some w
        \<and> now > expiresAt w"
  then show "verifyOTP_rev1 now email' code' table
            = (False, emailVerification_delete (EmailVerification.id' w) table)"
    by (simp add: verifyOTP_rev1_def)
next
  assume "user_findUnique_email email' users = Some u
        \<and> emailVerificationCode u = Some stored \<and> stored \<noteq> []
        \<and> emailVerificationExpires u = Some expires
        \<and> trim code' = trim stored \<and> now > expires"
  then show "verifyOTP_rev2 now email' code' users = (False, user_update (id' u) clearOTP users)"
    by (simp add: verifyOTP_rev2_def Let_def)
qed

theorem verifyOTP_frame_witness:
  "verifyOTP_rev2 5000 ''a@x.com'' ''123456'' [aliceOTP, bob] = (True, [aliceOTP, bob])
   \<and> verifyOTP_rev1 5000 ''a@x.com'' ''123456'' [otpA] = (True, [])
   \<and> verifyOTP_rev1 120001 ''a@x.com'' ''123456'' [otpA] = (False, [])
   \<and> verifyOTP_rev2 600001 ''a@x.com'' ''123456'' [aliceOTP, bob] = (False, [alice, bob])"
proof -
  have f: "user_findUnique_email ''a@x.com'' [aliceOTP, bob] = Some aliceOTP"
    by (simp add: user_findUnique_email_def aliceOTP_def alice_def newUser_def)
  have stored: "emailVerificationCode aliceOTP = Some ''123456''"
    and expires: "emailVerificationExpires aliceOTP = Some 600000"
    by (simp_all add: aliceOTP_def)
  have tr: "trim ''123456'' = ''123456''"
    using generateOTP_trim [of 23456] by (simp only: generateOTP_sample)
  have ok2: "fst (verifyOTP_rev2 5000 ''a@x.com'' ''123456'' [aliceOTP, bob])"
    by (simp add: verifyOTP_rev2_def f stored expires Let_def tr)
  have g: "emailVerification_findFirst
             (\<lambda>v. EmailVerification.email v = ''a@x.com'' \<and> code v = ''123456'') [otpA] = Some otpA"
    by (simp add: emailVerification_findFirst_def otpA_def)
  have del: "emailVerification_delete (EmailVerification.id' otpA) [otpA] = []"
    by (simp add: emailVerification_delete_def)
  have x: "expiresAt otpA = 120000" by (simp add: otpA_def)
  have ok1: "fst (verifyOTP_rev1 5000 ''a@x.com'' ''123456'' [otpA])"
    by (simp add: verifyOTP_rev1_def g x)
  have clr: "user_update (id' aliceOTP) clearOTP [aliceOTP, bob] = [alice, bob]"
    by (simp add: user_update_def clearOTP_def aliceOTP_def alice_def bob_def newUser_def)
  note t1 = verifyOTP_frame [where now = 5000 and email' = "''a@x.com''" and code' = "''123456''"
      and users = "[aliceOTP, bob]" and table = "[otpA]"]
  have k2: "snd (verifyOTP_rev2 5000 ''a@x.com'' ''123456'' [aliceOTP, bob]) = [aliceOTP, bob]"
    by (rule t1 [THEN conjunct1, THEN mp, OF ok2])
  from t1 [THEN conjunct2, THEN conjunct1, THEN mp, OF ok1] obtain v where
    v: "emailVerification_findFirst
          (\<lambda>v. EmailVerification.email v = ''a@x.com'' \<and> code v = ''123456'') [otpA] = Some v"
    and k1: "snd (verifyOTP_rev1 5000 ''a@x.com'' ''123456'' [otpA])
             = emailVerification_delete (EmailVerification.id' v) [otpA]"
    by blast
  from v g have "v = otpA" by simp
  with k1 del have k1': "snd (verifyOTP_rev1 5000 ''a@x.com'' ''123456'' [otpA]) = []" by simp
  note t2 = verifyOTP_frame [where now = 120001 and email' = "''a@x.com''" and code' = "''123456''"
      and table = "[otpA]" and w = otpA]
  have e1: "verifyOTP_rev1 120001 ''a@x.com'' ''123456'' [otpA]
            = (False, emailVerification_delete (EmailVerification.id' otpA) [otpA])"
    by (rule t2 [THEN conjunct2, THEN conjunct2, THEN conjunct1, THEN mp]) (simp add: g x)
  note t3 = verifyOTP_frame [where now = 600001 and email' = "''a@x.com''" and code' = "''123456''"
      and users = "[aliceOTP, bob]" and u = aliceOTP and stored = "''123456''" and expires = 600000]
  have e2: "verifyOTP_rev2 600001 ''a@x.com'' ''123456'' [aliceOTP, bob]
            = (False, user_update (id' aliceOTP) clearOTP [aliceOTP, bob])"
    by (rule t3 [THEN conjunct2, THEN conjunct2, THEN conjunct2, THEN mp])
      (simp add: f stored expires)
  have s2: "verifyOTP_rev2 5000 ''a@x.com'' ''123456'' [aliceOTP, bob] = (True, [aliceOTP, bob])"
    using ok2 k2 by (simp add: prod_eq_iff)
  have s1: "verifyOTP_rev1 5000 ''a@x.com'' ''123456'' [otpA] = (True, [])"
    using ok1 k1' by (simp add: prod_eq_iff)
  from s2 s1 e1 [unfolded del] e2 [unfolded clr] show ?thesis
    by (intro conjI)
qed

text \<open>
  The claim as stated fails in the first revision: the verification succeeds and the
  record is gone.
\<close>

theorem verifyOTP_consumes_counterexample:
  "fst (verifyOTP_rev1 5000 ''a@x.com'' ''123456'' [otpA])
   \<and> snd (verifyOTP_rev1 5000 ''a@x.com'' ''123456'' [otpA]) \<noteq> [otpA]"
  by (simp add: verifyOTP_rev1_def emailVerification_findFirst_def emailVerification_delete_def
      otpA_def)

end
